theory Spec2Isabelle
  imports Complex_Main
begin

section \<open>Tensors, numbers and errors\<close>

text \<open>
  The program is a Python module over torch. A one-dimensional float tensor is a list of
  samples, a two-dimensional one a list of rows.

  The value of a sample is computed in exact real arithmetic: the rounding of a sample to
  32 bits and the overflow of a sample are not part of this development. What decides a
  size, a branch or an exception is computed as Python and torch compute it, in floats:
  the product \<open>dur * sr\<close>, the exponent and the overflow of \<open>2 ** x\<close>, and the bound of
  \<open>torch.clamp\<close>. A float is a real that its format represents, or an infinity or
  not-a-number; an operation rounds its exact result to the nearest float, ties to even.
  A real argument of a function below stands for the float nearest to it, as a decimal
  literal does in Python, so \<open>3/10\<close> is the float \<open>0.3\<close>. Sizes and indices are
  integers. Memory is not bounded.

  Every exception the code or the torch functions it calls can raise is a constructor
  of \<open>error\<close>, and a function that may raise returns \<open>error + 'a\<close>.
\<close>

datatype error =
    AssertionError      \<comment> \<open>a failed \<open>assert\<close> of the module\<close>
  | ValueError          \<comment> \<open>\<open>range\<close> with step 0, \<open>int\<close> of not-a-number\<close>
  | OverflowError       \<comment> \<open>\<open>2 ** x\<close> beyond the floats, \<open>int\<close> of an infinity\<close>
  | NegativeDimension   \<comment> \<open>\<open>torch.zeros\<close>, \<open>torch.hann_window\<close> with a negative size\<close>
  | ArangeBounds        \<comment> \<open>\<open>torch.arange(end)\<close> with \<open>end < 0\<close>\<close>
  | ArangeNotFinite     \<comment> \<open>\<open>torch.arange(end)\<close> with an infinite or undefined \<open>end\<close>\<close>
  | ScalarOverflow      \<comment> \<open>a Python scalar beyond the range of the tensor's float32\<close>
  | SizeMismatch        \<comment> \<open>operands that do not broadcast, or not onto the target of \<open>+=\<close>\<close>
  | StackEmptyList      \<comment> \<open>\<open>torch.stack\<close> of an empty list\<close>
  | StackSizes          \<comment> \<open>\<open>torch.stack\<close> of tensors of different sizes\<close>
  | FFTEmpty            \<comment> \<open>\<open>torch.fft.fft\<close> of a tensor without elements\<close>

text \<open>A float: a finite value, plus or minus infinity, or not-a-number.\<close>

datatype fval = Fin real | PInf | NInf | NaN

definition pow2 :: "int \<Rightarrow> real" where
  "pow2 e = 2 powr real_of_int e"

text \<open>Rounding to the nearest integer, a tie to the even one.\<close>

definition round_half_even :: "real \<Rightarrow> int" where
  "round_half_even x =
     (let f = \<lfloor>x\<rfloor>; d = x - of_int f
      in if d < 1/2 then f else if 1/2 < d then f + 1 else if even f then f else f + 1)"

text \<open>
  Rounding to a binary format of \<open>p\<close> significant bits whose least normal exponent is
  \<open>emin\<close>: the result is a multiple of the spacing of the floats around \<open>x\<close>, and below
  \<open>2 ^ emin\<close> the spacing stays that of the subnormal numbers. The exponent is not
  bounded above here; the formats below cut it.
\<close>

definition round_float :: "nat \<Rightarrow> int \<Rightarrow> real \<Rightarrow> real" where
  "round_float p emin x =
     (if x = 0 then 0
      else let e = max \<lfloor>log 2 \<bar>x\<bar>\<rfloor> emin; q = pow2 (e - int p + 1)
           in of_int (round_half_even (x / q)) * q)"

text \<open>Python's float is the 64 bit format: 53 bits, exponents from -1022 to 1023.\<close>

definition round64 :: "real \<Rightarrow> real" where
  "round64 x = round_float 53 (- 1022) x"

definition float64 :: "real \<Rightarrow> fval" where
  "float64 x =
     (let y = round64 x
      in if pow2 1024 \<le> y then PInf else if y \<le> - pow2 1024 then NInf else Fin y)"

text \<open>The product of two floats; an infinity times zero is not a number.\<close>

fun float_mul :: "fval \<Rightarrow> fval \<Rightarrow> fval" where
  "float_mul (Fin a) (Fin b) = float64 (a * b)"
| "float_mul NaN w = NaN"
| "float_mul v NaN = NaN"
| "float_mul (Fin a) w = (if a = 0 then NaN else if (0 < a) = (w = PInf) then PInf else NInf)"
| "float_mul v (Fin b) = (if b = 0 then NaN else if (0 < b) = (v = PInf) then PInf else NInf)"
| "float_mul v w = (if v = w then PInf else NInf)"

text \<open>
  \<open>a * b\<close> on two Python numbers given as reals: each is read as a float (an
  \<open>int\<close> below \<open>2 ^ 53\<close>, such as a sample rate, is its own float) and the
  product is rounded.
\<close>

definition py_float_mul :: "real \<Rightarrow> real \<Rightarrow> fval" where
  "py_float_mul a b = float_mul (float64 a) (float64 b)"

text \<open>\<open>int(x)\<close> of a float truncates towards zero and refuses what is not finite.\<close>

fun py_int :: "fval \<Rightarrow> error + int" where
  "py_int (Fin x) = Inr (if 0 \<le> x then \<lfloor>x\<rfloor> else \<lceil>x\<rceil>)"
| "py_int NaN = Inl ValueError"
| "py_int v = Inl OverflowError"

text \<open>
  \<open>torch.arange(end)\<close> is \<open>0, 1, ...\<close> below \<open>end\<close>: it has \<open>ceil(end)\<close> elements,
  and is refused when \<open>end\<close> is negative or not finite.
\<close>

fun torch_arange :: "fval \<Rightarrow> error + real list" where
  "torch_arange (Fin end) = (if end < 0 then Inl ArangeBounds
     else Inr (map real [0 ..< nat \<lceil>end\<rceil>]))"
| "torch_arange v = Inl ArangeNotFinite"

definition torch_zeros :: "int \<Rightarrow> error + real list" where
  "torch_zeros n = (if n < 0 then Inl NegativeDimension else Inr (replicate (nat n) 0))"

text \<open>
  \<open>a += b\<close> on one-dimensional tensors: \<open>b\<close> is broadcast onto \<open>a\<close>, which keeps
  its size. So \<open>b\<close> has the size of \<open>a\<close> or exactly one element; a one-element \<open>b\<close>
  is added to every element of \<open>a\<close>, also when \<open>a\<close> has none.
\<close>

definition tensor_iadd :: "real list \<Rightarrow> real list \<Rightarrow> error + real list" where
  "tensor_iadd a b =
     (if length b = length a then Inr (map2 (+) a b)
      else if length b = 1 then Inr (map (\<lambda>x. x + hd b) a)
      else Inl SizeMismatch)"

section \<open>Tone synthesis\<close>

text \<open>
  \<open>440 * 2 ** ((midi_pitch - 69) / 12)\<close>. The exponent is a float, and Python's power
  raises OverflowError when its result is beyond the floats, which for the base 2 is
  from the exponent 1024 on. With an infinite pitch the power returns an infinity or 0
  and nothing is raised. The frequency itself is a value and is kept exact.
\<close>

definition midi_pitch_to_hz :: "real \<Rightarrow> error + real" where
  "midi_pitch_to_hz midi_pitch =
     (case float64 midi_pitch of
        Fin p \<Rightarrow>
          (let x = round64 (round64 (p - 69) / 12)
           in if 1024 \<le> x then Inl OverflowError else Inr (440 * 2 powr x))
      | _ \<Rightarrow> Inr (440 * 2 powr ((midi_pitch - 69) / 12)))"

text \<open>
  \<open>make_sine_wave\<close>: the number of samples comes from the float product
  \<open>dur * sr\<close>. \<open>time_frame / sr\<close> divides every element by \<open>sr\<close>; with \<open>sr = 0\<close>
  the product is 0 or not a number, and no sample is ever divided by zero.
\<close>

definition make_sine_wave :: "real \<Rightarrow> real \<Rightarrow> real \<Rightarrow> real \<Rightarrow> error + real list" where
  "make_sine_wave freq amp dur sr =
     (let num_samples = py_float_mul dur sr in
      case torch_arange num_samples of
        Inl e \<Rightarrow> Inl e
      | Inr time_frame \<Rightarrow>
          (let time_frame_sec = map (\<lambda>t. t / sr) time_frame
           in Inr (map (\<lambda>t. amp * sin (2 * pi * freq * t)) time_frame_sec)))"

text \<open>
  The first loop of \<open>generate_multi_pitch_tone\<close> converts the pitches in order and
  ends at the first one that raises.
\<close>

fun freq_loop :: "real list \<Rightarrow> error + real list" where
  "freq_loop [] = Inr []"
| "freq_loop (i # rest) =
     (case midi_pitch_to_hz i of
        Inl e \<Rightarrow> Inl e
      | Inr f \<Rightarrow> (case freq_loop rest of Inl e \<Rightarrow> Inl e | Inr fs \<Rightarrow> Inr (f # fs)))"

text \<open>
  The second loop, over \<open>zip(freq_list, amp_list)\<close>: each round synthesises one sine
  and adds it in place to the accumulator; the first exception ends the loop.
\<close>

fun mix_loop :: "(real \<times> real) list \<Rightarrow> real \<Rightarrow> real \<Rightarrow> real list \<Rightarrow> error + real list" where
  "mix_loop [] duration sr chord_tone = Inr chord_tone"
| "mix_loop ((i, j) # rest) duration sr chord_tone =
     (case make_sine_wave i j duration sr of
        Inl e \<Rightarrow> Inl e
      | Inr sine_wave \<Rightarrow>
          (case tensor_iadd chord_tone sine_wave of
             Inl e \<Rightarrow> Inl e
           | Inr chord_tone' \<Rightarrow> mix_loop rest duration sr chord_tone'))"

definition generate_multi_pitch_tone ::
  "real list \<Rightarrow> real list \<Rightarrow> real \<Rightarrow> real \<Rightarrow> error + real list" where
  "generate_multi_pitch_tone pitch_list amp_list duration sr =
     (if length pitch_list \<noteq> length amp_list then Inl AssertionError
      else
        case freq_loop pitch_list of
          Inl e \<Rightarrow> Inl e
        | Inr freq_list \<Rightarrow>
            (case py_int (py_float_mul duration sr) of
               Inl e \<Rightarrow> Inl e
             | Inr n \<Rightarrow>
                 (case torch_zeros n of
                    Inl e \<Rightarrow> Inl e
                  | Inr chord_tone \<Rightarrow> mix_loop (zip freq_list amp_list) duration sr chord_tone)))"

section \<open>Shepard tone tables\<close>

text \<open>
  \<open>output[i, j] = v\<close> on a two-dimensional tensor. Every index the loops of
  \<open>define_amplitude\<close> use lies inside the 24 by 3 table.
\<close>

definition tensor2_set :: "real list list \<Rightarrow> nat \<Rightarrow> nat \<Rightarrow> real \<Rightarrow> real list list" where
  "tensor2_set output i j v = output[i := (output ! i)[j := v]]"

text \<open>The body of the first pair of loops of \<open>define_amplitude\<close>, at row i and column j.\<close>

definition amplitude_fill :: "nat \<Rightarrow> nat \<Rightarrow> real list list \<Rightarrow> real list list" where
  "amplitude_fill i j output =
     (if j = 1 then tensor2_set output i j 1.0
      else if j = 2 then tensor2_set output i j (exp (- 0.388 * real i))
      else output)"

text \<open>The body of the second pair of loops: column 0 is read from column 2.\<close>

definition amplitude_mirror :: "nat \<Rightarrow> nat \<Rightarrow> real list list \<Rightarrow> real list list" where
  "amplitude_mirror i j output =
     (if j = 0 then tensor2_set output i j (output ! (23 - i) ! 2) else output)"

definition define_amplitude :: "real list list" where
  "define_amplitude =
     (let output = replicate 24 (replicate 3 0);
          output = fold (\<lambda>i. fold (\<lambda>j. amplitude_fill i j) [0 ..< 3]) [0 ..< 24] output;
          output = fold (\<lambda>i. fold (\<lambda>j. amplitude_mirror i j) [0 ..< 3]) [0 ..< 24] output
      in output)"

section \<open>Spectrogram converter\<close>

text \<open>
  \<open>torch.hann_window(window_length)\<close> with its default \<open>periodic=True\<close>: the window of
  \<open>window_length + 1\<close> points \<open>0.5 - 0.5 * cos(2 * pi * n / window_length)\<close> without
  its last point. torch returns one 1 for length 1 and no element for length 0.
\<close>

definition torch_hann_window :: "int \<Rightarrow> error + real list" where
  "torch_hann_window window_length =
     (if window_length < 0 then Inl NegativeDimension
      else if window_length = 0 then Inr []
      else if window_length = 1 then Inr [1]
      else Inr (map (\<lambda>n. 0.5 - 0.5 * cos (2 * pi * real n / real_of_int window_length))
                  [0 ..< nat window_length]))"

text \<open>
  The object built by \<open>__init__\<close>. The mel filterbank comes from torchaudio and is a
  parameter of the constructor here.
\<close>

record SpectrogramConverter =
  n_fft :: int
  hop_size :: int
  sr :: real
  num_mels :: int
  window_tensor :: "real list"
  power' :: real
  mel_fb :: "real list list"

definition SpectrogramConverter_init ::
  "int \<Rightarrow> int \<Rightarrow> real \<Rightarrow> int \<Rightarrow> real \<Rightarrow> real list list \<Rightarrow> error + SpectrogramConverter" where
  "SpectrogramConverter_init n_fft_arg hop_size_arg sample_rate num_mels_arg power_arg fb =
     (case torch_hann_window n_fft_arg of
        Inl e \<Rightarrow> Inl e
      | Inr w \<Rightarrow> Inr \<lparr> n_fft = n_fft_arg, hop_size = hop_size_arg, sr = sample_rate,
                       num_mels = num_mels_arg, window_tensor = w, power' = power_arg,
                       mel_fb = fb \<rparr>)"

text \<open>
  The audio argument: a tensor of one dimension, of two dimensions (a list of rows), or
  of any other number of dimensions, which the assertion of \<open>get_spectrogram\<close> refuses.
\<close>

datatype tensor = Tensor1 "real list" | Tensor2 "real list list" | TensorOther

definition shape1 :: "real list list \<Rightarrow> nat" where
  "shape1 rows = (case rows of [] \<Rightarrow> 0 | r # _ \<Rightarrow> length r)"

definition mean_dim0 :: "real list list \<Rightarrow> real list" where
  "mean_dim0 rows = map (\<lambda>c. sum_list (map (\<lambda>r. r ! c) rows) / real (length rows)) [0 ..< shape1 rows]"

definition mean_dim1 :: "real list list \<Rightarrow> real list" where
  "mean_dim1 rows = map (\<lambda>r. sum_list r / real (length r)) rows"

text \<open>
  \<open>range(lo, hi, step)\<close> with the length CPython computes for it; step 0 raises.
\<close>

definition range_length :: "int \<Rightarrow> int \<Rightarrow> int \<Rightarrow> nat" where
  "range_length lo hi step =
     (if 0 < step \<and> lo < hi then nat (1 + (hi - 1 - lo) div step)
      else if step < 0 \<and> hi < lo then nat (1 + (lo - 1 - hi) div (- step))
      else 0)"

definition py_range :: "int \<Rightarrow> int \<Rightarrow> int \<Rightarrow> error + int list" where
  "py_range lo hi step =
     (if step = 0 then Inl ValueError
      else Inr (map (\<lambda>k. lo + int k * step) [0 ..< range_length lo hi step]))"

text \<open>
  \<open>xs[start:end]\<close>: a negative index counts from the end, and both indices are clipped
  to the sequence, so a slice never raises and may be shorter than \<open>end - start\<close>.
\<close>

definition slice_index :: "nat \<Rightarrow> int \<Rightarrow> nat" where
  "slice_index len i = (if i < 0 then nat (max 0 (i + int len)) else min (nat i) len)"

definition py_slice :: "'a list \<Rightarrow> int \<Rightarrow> int \<Rightarrow> 'a list" where
  "py_slice xs start end =
     (let s = slice_index (length xs) start; e = slice_index (length xs) end
      in take (e - s) (drop s xs))"

text \<open>
  \<open>a * b\<close> on one-dimensional tensors broadcasts: equal sizes multiply element by
  element, a one-element operand multiplies every element of the other, anything else
  raises.
\<close>

definition tensor_mul :: "real list \<Rightarrow> real list \<Rightarrow> error + real list" where
  "tensor_mul a b =
     (if length a = length b then Inr (map2 (*) a b)
      else if length a = 1 then Inr (map (\<lambda>y. hd a * y) b)
      else if length b = 1 then Inr (map (\<lambda>x. x * hd b) a)
      else Inl SizeMismatch)"

text \<open>The discrete Fourier transform of a real tensor; torch refuses a tensor without elements.\<close>

definition dft :: "real list \<Rightarrow> complex list" where
  "dft xs = map (\<lambda>k. sum_list (map (\<lambda>n. complex_of_real (xs ! n)
                               * cis (- 2 * pi * real k * real n / real (length xs)))
                           [0 ..< length xs]))
              [0 ..< length xs]"

definition torch_fft :: "real list \<Rightarrow> error + complex list" where
  "torch_fft xs = (if xs = [] then Inl FFTEmpty else Inr (dft xs))"

text \<open>
  \<open>x ** p\<close> on a magnitude \<open>x \<ge> 0\<close>. (\<open>0 ** p\<close> with \<open>p < 0\<close> is infinite in torch
  and has no real value; nothing below depends on it.)
\<close>

definition tensor_pow :: "real \<Rightarrow> real \<Rightarrow> real" where
  "tensor_pow x p = (if p = 0 then 1 else x powr p)"

text \<open>
  \<open>torch.stack(output, 1)\<close> of one-dimensional tensors: the list must not be empty and
  all sizes must agree; element \<open>[k, j]\<close> of the result is element \<open>k\<close> of tensor \<open>j\<close>.
\<close>

definition torch_stack1 :: "real list list \<Rightarrow> error + real list list" where
  "torch_stack1 ts =
     (if ts = [] then Inl StackEmptyList
      else if list_ex (\<lambda>t. length t \<noteq> length (hd ts)) ts then Inl StackSizes
      else Inr (map (\<lambda>k. map (\<lambda>t. t ! k) ts) [0 ..< length (hd ts)]))"

text \<open>One round of the frame loop of \<open>get_spectrogram\<close>: the column for \<open>start_idx\<close>.\<close>

definition spectrogram_frame :: "SpectrogramConverter \<Rightarrow> real list \<Rightarrow> int \<Rightarrow> error + real list" where
  "spectrogram_frame self audio start_idx =
     (let end_idx = start_idx + n_fft self;
          corresp_slice = py_slice audio start_idx end_idx
      in case tensor_mul corresp_slice (window_tensor self) of
           Inl e \<Rightarrow> Inl e
         | Inr windowed_slice \<Rightarrow>
             (case torch_fft windowed_slice of
                Inl e \<Rightarrow> Inl e
              | Inr fft_result \<Rightarrow>
                  Inr (map (\<lambda>z. tensor_pow (cmod z) (power' self)) fft_result)))"

fun frames_loop ::
  "SpectrogramConverter \<Rightarrow> real list \<Rightarrow> int list \<Rightarrow> real list list \<Rightarrow> error + real list list" where
  "frames_loop self audio [] output = Inr output"
| "frames_loop self audio (start_idx # rest) output =
     (case spectrogram_frame self audio start_idx of
        Inl e \<Rightarrow> Inl e
      | Inr spectrogram_slice \<Rightarrow> frames_loop self audio rest (output @ [spectrogram_slice]))"

definition get_spectrogram :: "SpectrogramConverter \<Rightarrow> tensor \<Rightarrow> error + real list list" where
  "get_spectrogram self audio_arg =
     (let audio =
            (case audio_arg of
               Tensor2 rows \<Rightarrow>
                 (if shape1 rows > length rows then Tensor1 (mean_dim0 rows)
                  else Tensor1 (mean_dim1 rows))
             | _ \<Rightarrow> audio_arg)
      in case audio of
           Tensor1 samples \<Rightarrow>
             (case py_range 0 (int (length samples) - n_fft self + 1) (hop_size self) of
                Inl e \<Rightarrow> Inl e
              | Inr indices \<Rightarrow>
                  (case frames_loop self samples indices [] of
                     Inl e \<Rightarrow> Inl e
                   | Inr output \<Rightarrow>
                       (case torch_stack1 output of
                          Inl e \<Rightarrow> Inl e
                        | Inr stacked \<Rightarrow> Inr (py_slice stacked 0 (n_fft self div 2 + 1)))))
         | _ \<Rightarrow> Inl AssertionError)"

section \<open>Mel scale and decibels\<close>

text \<open>
  The two element-wise conversions take a logarithm, whose result on a float is minus
  infinity at 0 and not a number below 0. Their tensors therefore hold floats with the
  infinities and not-a-number; a finite element is kept exact.
\<close>

fun fval_scale :: "real \<Rightarrow> fval \<Rightarrow> fval" where
  "fval_scale c (Fin x) = Fin (c * x)"
| "fval_scale c PInf = (if 0 < c then PInf else if c < 0 then NInf else NaN)"
| "fval_scale c NInf = (if 0 < c then NInf else if c < 0 then PInf else NaN)"
| "fval_scale c NaN = NaN"

fun fval_div :: "fval \<Rightarrow> real \<Rightarrow> fval" where
  "fval_div (Fin x) c =
     (if c = 0 then (if 0 < x then PInf else if x < 0 then NInf else NaN) else Fin (x / c))"
| "fval_div PInf c = (if c < 0 then NInf else PInf)"
| "fval_div NInf c = (if c < 0 then PInf else NInf)"
| "fval_div NaN c = NaN"

fun fval_shift :: "real \<Rightarrow> fval \<Rightarrow> fval" where
  "fval_shift c (Fin x) = Fin (c + x)"
| "fval_shift c v = v"

fun fval_log10 :: "fval \<Rightarrow> fval" where
  "fval_log10 (Fin x) = (if 0 < x then Fin (log 10 x) else if x = 0 then NInf else NaN)"
| "fval_log10 PInf = PInf"
| "fval_log10 NInf = NaN"
| "fval_log10 NaN = NaN"

definition hz_to_mel :: "fval list \<Rightarrow> fval list" where
  "hz_to_mel hz = map (\<lambda>v. fval_scale 2595 (fval_log10 (fval_shift 1 (fval_div v 700)))) hz"

text \<open>
  The tensors of this program are float32 tensors: 24 bits, exponents from -126 to 127.
  \<open>torch.clamp(v, min=eps)\<close> casts the Python scalar \<open>eps\<close> to the element type of
  the tensor before it compares: a finite scalar beyond the largest float32 is refused,
  and a positive scalar below half the least subnormal float32 becomes 0.
\<close>

definition round32 :: "real \<Rightarrow> real" where
  "round32 x = round_float 24 (- 126) x"

definition float32_max :: real where
  "float32_max = pow2 128 - pow2 104"

fun scalar_to_float32 :: "fval \<Rightarrow> error + fval" where
  "scalar_to_float32 (Fin x) =
     (if float32_max < \<bar>x\<bar> then Inl ScalarOverflow else Inr (Fin (round32 x)))"
| "scalar_to_float32 v = Inr v"

text \<open>
  The clamp itself, on the cast bound \<open>m\<close>: a value below \<open>m\<close> becomes \<open>m\<close>;
  not-a-number stays, and a bound that is not a number fills the result with it.
\<close>

fun fval_clamp_min :: "fval \<Rightarrow> fval \<Rightarrow> fval" where
  "fval_clamp_min NaN v = NaN"
| "fval_clamp_min m NaN = NaN"
| "fval_clamp_min (Fin m) (Fin x) = Fin (max x m)"
| "fval_clamp_min (Fin m) PInf = PInf"
| "fval_clamp_min (Fin m) NInf = Fin m"
| "fval_clamp_min PInf v = PInf"
| "fval_clamp_min NInf v = v"

definition amplitude_to_db :: "fval list list \<Rightarrow> real \<Rightarrow> error + fval list list" where
  "amplitude_to_db spectrogram eps =
     (case scalar_to_float32 (float64 eps) of
        Inl e \<Rightarrow> Inl e
      | Inr m \<Rightarrow>
          Inr (map (map (\<lambda>v. fval_scale 10 (fval_log10 (fval_clamp_min m v)))) spectrogram))"

text \<open>The call without \<open>eps\<close> takes the default of the signature, \<open>1e-10\<close>.\<close>

definition amplitude_to_db_default :: "fval list list \<Rightarrow> error + fval list list" where
  "amplitude_to_db_default spectrogram = amplitude_to_db spectrogram (1 / 10 ^ 10)"

section \<open>Rounding to a float\<close>

lemma pow2_pos [simp]: "0 < pow2 e"
  by (simp add: pow2_def)

lemma pow2_nonneg [simp]: "0 \<le> pow2 e"
  by (simp add: pow2_def)

lemma pow2_neq0 [simp]: "pow2 e \<noteq> 0"
  by (simp add: pow2_def)

lemma pow2_add: "pow2 (a + b) = pow2 a * pow2 b"
  by (simp add: pow2_def powr_add)

lemma pow2_nat: "0 \<le> e \<Longrightarrow> pow2 e = 2 ^ nat e"
  by (simp add: pow2_def powr_real_of_int)

lemma pow2_neg: "e < 0 \<Longrightarrow> pow2 e = 1 / 2 ^ nat (- e)"
  by (simp add: pow2_def powr_real_of_int field_simps)

lemma pow2_mono: "a \<le> b \<Longrightarrow> pow2 a \<le> pow2 b"
  by (simp add: pow2_def)

lemma pow2_numeral [simp]:
  "pow2 (numeral n) = 2 ^ numeral n" "pow2 (- numeral n) = 1 / 2 ^ numeral n"
  "pow2 0 = 1" "pow2 1 = 2" "pow2 (- 1) = 1 / 2"
  by (simp_all add: pow2_def powr_neg_numeral powr_minus_divide)

lemma floor_log2: "pow2 e \<le> x \<Longrightarrow> x < pow2 (e + 1) \<Longrightarrow> \<lfloor>log 2 x\<rfloor> = e"
proof -
  assume a: "pow2 e \<le> x" "x < pow2 (e + 1)"
  have "0 < x" using a(1) pow2_pos [of e] by linarith
  then show ?thesis
    using a by (simp add: floor_log_eq_powr_iff pow2_def)
qed

lemma floor_log2_bounds:
  assumes "0 < x"
  shows "pow2 \<lfloor>log 2 x\<rfloor> \<le> x" "x < pow2 (\<lfloor>log 2 x\<rfloor> + 1)"
  using floor_log_eq_powr_iff [of x 2 "\<lfloor>log 2 x\<rfloor>"] assms by (simp_all add: pow2_def)

lemma round_float_eval:
  assumes "pow2 e \<le> \<bar>x\<bar>" "\<bar>x\<bar> < pow2 (e + 1)"
  shows "round_float p emin x
     = of_int (round_half_even (x / pow2 (max e emin - int p + 1))) * pow2 (max e emin - int p + 1)"
proof -
  have "0 < \<bar>x\<bar>" using assms(1) pow2_pos [of e] by linarith
  then have "x \<noteq> 0" by simp
  moreover have "\<lfloor>log 2 \<bar>x\<bar>\<rfloor> = e" using assms by (rule floor_log2)
  ultimately show ?thesis by (simp add: round_float_def Let_def)
qed

lemma round_half_even_int [simp]: "round_half_even (of_int n) = n"
  by (simp add: round_half_even_def)

lemma round_half_even_cases:
  "round_half_even z = \<lfloor>z\<rfloor> \<or> (round_half_even z = \<lfloor>z\<rfloor> + 1 \<and> of_int \<lfloor>z\<rfloor> < z)"
  by (auto simp: round_half_even_def Let_def)

lemma round_half_even_ge: "of_int n \<le> z \<Longrightarrow> n \<le> round_half_even z"
proof -
  assume "of_int n \<le> z"
  then have "n \<le> \<lfloor>z\<rfloor>" by (simp add: le_floor_iff)
  with round_half_even_cases [of z] show ?thesis by auto
qed

lemma round_half_even_le: "z \<le> of_int n \<Longrightarrow> round_half_even z \<le> n"
proof -
  assume a: "z \<le> of_int n"
  have f: "\<lfloor>z\<rfloor> \<le> n" using a by (metis floor_mono floor_of_int)
  from round_half_even_cases [of z] show ?thesis
  proof
    assume "round_half_even z = \<lfloor>z\<rfloor>" with f show ?thesis by simp
  next
    assume b: "round_half_even z = \<lfloor>z\<rfloor> + 1 \<and> of_int \<lfloor>z\<rfloor> < z"
    then have "of_int \<lfloor>z\<rfloor> < (of_int n :: real)" using a by linarith
    then have "\<lfloor>z\<rfloor> < n" by simp
    with b show ?thesis by simp
  qed
qed

lemma round_float_zero [simp]: "round_float p emin 0 = 0"
  by (simp add: round_float_def)

lemma round_float_nonneg: "0 \<le> x \<Longrightarrow> 0 \<le> round_float p emin x"
proof -
  assume a: "0 \<le> x"
  show ?thesis
  proof (cases "x = 0")
    case True then show ?thesis by simp
  next
    case False
    let ?q = "pow2 (max \<lfloor>log 2 \<bar>x\<bar>\<rfloor> emin - int p + 1)"
    have "of_int 0 \<le> x / ?q" using a by simp
    then have "0 \<le> round_half_even (x / ?q)" by (rule round_half_even_ge)
    then have "0 \<le> of_int (round_half_even (x / ?q)) * ?q"
      by (intro mult_nonneg_nonneg) simp_all
    then show ?thesis using False by (simp add: round_float_def Let_def)
  qed
qed

lemma round_float_nonpos: "x \<le> 0 \<Longrightarrow> round_float p emin x \<le> 0"
proof -
  assume a: "x \<le> 0"
  show ?thesis
  proof (cases "x = 0")
    case True then show ?thesis by simp
  next
    case False
    let ?q = "pow2 (max \<lfloor>log 2 \<bar>x\<bar>\<rfloor> emin - int p + 1)"
    have "x / ?q \<le> of_int 0" using a by (simp add: divide_nonpos_pos)
    then have "round_half_even (x / ?q) \<le> 0" by (rule round_half_even_le)
    then have "of_int (round_half_even (x / ?q)) * ?q \<le> 0"
      by (intro mult_nonpos_nonneg) simp_all
    then show ?thesis using False by (simp add: round_float_def Let_def)
  qed
qed

lemma pow2_ratio_int: "b \<le> a \<Longrightarrow> pow2 a / pow2 b = of_int (2 ^ nat (a - b))"
proof -
  assume "b \<le> a"
  then have "pow2 a = pow2 (a - b) * pow2 b" using pow2_add [of "a - b" b] by simp
  moreover have "pow2 (a - b) = 2 ^ nat (a - b)" using \<open>b \<le> a\<close> by (simp add: pow2_nat)
  ultimately show ?thesis by simp
qed

lemma round_float_le_pow2:
  assumes "x \<le> pow2 k" "emin - int p + 1 \<le> k" "0 < p"
  shows "round_float p emin x \<le> pow2 k"
proof (cases "x \<le> 0")
  case True
  then have "round_float p emin x \<le> 0" by (rule round_float_nonpos)
  also have "0 \<le> pow2 k" using pow2_pos [of k] by simp
  finally show ?thesis .
next
  case False
  then have x: "0 < x" by simp
  let ?l = "\<lfloor>log 2 \<bar>x\<bar>\<rfloor>"
  let ?e = "max ?l emin"
  let ?q = "pow2 (?e - int p + 1)"
  have "pow2 ?l \<le> x" using floor_log2_bounds(1) [OF x] x by simp
  then have "pow2 ?l \<le> pow2 k" using assms(1) by linarith
  then have "?l \<le> k" by (simp add: pow2_def)
  then have le: "?e - int p + 1 \<le> k" using assms(2,3) by linarith
  have "x / ?q \<le> pow2 k / ?q" using assms(1) by (simp add: divide_right_mono)
  also have "pow2 k / ?q = of_int (2 ^ nat (k - (?e - int p + 1)))"
    using le by (rule pow2_ratio_int)
  finally have "round_half_even (x / ?q) \<le> 2 ^ nat (k - (?e - int p + 1))"
    by (rule round_half_even_le)
  then have "of_int (round_half_even (x / ?q)) * ?q \<le> of_int (2 ^ nat (k - (?e - int p + 1))) * ?q"
    by (simp add: mult_right_mono del: of_int_power)
  also have "of_int (2 ^ nat (k - (?e - int p + 1))) * ?q = pow2 k"
    using pow2_ratio_int [OF le] by (simp add: field_simps)
  finally show ?thesis using x by (simp add: round_float_def Let_def)
qed

lemma round_float_ge_pow2:
  assumes "pow2 k \<le> x" "emin - int p + 1 \<le> k" "0 < p"
  shows "pow2 k \<le> round_float p emin x"
proof -
  have x: "0 < x" using assms(1) pow2_pos [of k] by linarith
  define l where "l = \<lfloor>log 2 \<bar>x\<bar>\<rfloor>"
  define s where "s = max l emin - int p + 1"
  define b where "b = (if emin \<le> l then l else k)"
  define r where "r = round_half_even (x / pow2 s)"
  have l: "pow2 l \<le> x" "x < pow2 (l + 1)"
    using floor_log2_bounds [OF x] x by (simp_all add: l_def)
  have "pow2 k < pow2 (l + 1)" using assms(1) l(2) by linarith
  then have k: "k \<le> l" by (simp add: pow2_def)
  have b1: "pow2 b \<le> x" using l(1) assms(1) by (simp add: b_def)
  have b2: "pow2 k \<le> pow2 b" using k by (auto simp: b_def intro: pow2_mono)
  have b3: "s \<le> b" using assms(2,3) by (auto simp: b_def s_def max_def)
  have ratio: "pow2 b / pow2 s = of_int (2 ^ nat (b - s))"
    using b3 by (rule pow2_ratio_int)
  have "pow2 b / pow2 s \<le> x / pow2 s" using b1 by (simp add: divide_right_mono)
  then have "of_int (2 ^ nat (b - s)) \<le> x / pow2 s" by (simp only: ratio)
  then have "2 ^ nat (b - s) \<le> r" unfolding r_def by (rule round_half_even_ge)
  then have "(of_int (2 ^ nat (b - s)) :: real) \<le> of_int r" by (simp only: of_int_le_iff)
  then have le: "of_int (2 ^ nat (b - s)) * pow2 s \<le> of_int r * pow2 s"
    by (rule mult_right_mono) simp
  have "pow2 b = (pow2 b / pow2 s) * pow2 s" by simp
  also have "\<dots> = of_int (2 ^ nat (b - s)) * pow2 s" by (simp only: ratio)
  also note le
  also have "of_int r * pow2 s = round_float p emin x"
    using x by (simp add: round_float_def Let_def r_def s_def l_def)
  finally have "pow2 b \<le> round_float p emin x" .
  with b2 show ?thesis by linarith
qed

text \<open>
  The float nearest to a real, from the exponent of the real: the evaluation of
  \<open>float64\<close> at a given number.
\<close>

lemma float64_eval:
  assumes "pow2 e \<le> \<bar>x\<bar>" "\<bar>x\<bar> < pow2 (e + 1)"
    and "y = of_int (round_half_even (x / pow2 (max e (- 1022) - 52))) * pow2 (max e (- 1022) - 52)"
    and "y < pow2 1024" "- pow2 1024 < y"
  shows "float64 x = Fin y"
proof -
  have "round64 x = y"
    unfolding round64_def using round_float_eval [OF assms(1,2), of 53 "- 1022"] assms(3) by simp
  then show ?thesis using assms(4,5) by (simp add: float64_def Let_def)
qed

lemma float64_zero [simp]: "float64 0 = Fin 0"
  by (simp add: float64_def round64_def Let_def)

text \<open>
  The products of this development. 0.3 seconds at 16000 Hz, the call of the Shepard
  generator, are 4800 samples and 0.1 seconds are 1600, although the floats 0.3 and 0.1
  are not the reals 3/10 and 1/10; the float product of 0.07 and 100 is above 7.
\<close>

lemma float64_03: "float64 (3/10) = Fin (5404319552844595 / 2 ^ 54)"
  by (rule float64_eval [where e = "- 2"]) (simp_all add: round_half_even_def Let_def)

lemma float64_16000: "float64 16000 = Fin 16000"
  by (rule float64_eval [where e = 13]) (simp_all add: round_half_even_def Let_def)

lemma float_product_03: "py_float_mul (3/10) 16000 = Fin 4800"
  unfolding py_float_mul_def float64_03 float64_16000 float_mul.simps
  by (rule float64_eval [where e = 12]) (simp_all add: round_half_even_def Let_def)

lemma float64_01: "float64 (1/10) = Fin (3602879701896397 / 2 ^ 55)"
  by (rule float64_eval [where e = "- 4"]) (simp_all add: round_half_even_def Let_def)

lemma float_product_01: "py_float_mul (1/10) 16000 = Fin 1600"
  unfolding py_float_mul_def float64_01 float64_16000 float_mul.simps
  by (rule float64_eval [where e = 10]) (simp_all add: round_half_even_def Let_def)

lemma float64_04: "float64 (2/5) = Fin (3602879701896397 / 2 ^ 53)"
  by (rule float64_eval [where e = "- 2"]) (simp_all add: round_half_even_def Let_def)

lemma float64_3: "float64 3 = Fin 3"
  by (rule float64_eval [where e = 1]) (simp_all add: round_half_even_def Let_def)

lemma float_product_04: "py_float_mul (2/5) 3 = Fin (1351079888211149 / 2 ^ 50)"
  unfolding py_float_mul_def float64_04 float64_3 float_mul.simps
  by (rule float64_eval [where e = 0]) (simp_all add: round_half_even_def Let_def)

lemma float64_000015: "float64 (3/20000) = Fin (5534023222112865 / 2 ^ 65)"
  by (rule float64_eval [where e = "- 13"]) (simp_all add: round_half_even_def Let_def)

lemma float_product_000015: "py_float_mul (3/20000) 16000 = Fin (5404319552844595 / 2 ^ 51)"
  unfolding py_float_mul_def float64_000015 float64_16000 float_mul.simps
  by (rule float64_eval [where e = 1]) (simp_all add: round_half_even_def Let_def)

lemma float64_half_sample: "float64 (1/32000) = Fin (4611686018427388 / 2 ^ 67)"
  by (rule float64_eval [where e = "- 15"]) (simp_all add: round_half_even_def Let_def)

lemma float_product_half_sample: "py_float_mul (1/32000) 16000 = Fin (1/2)"
  unfolding py_float_mul_def float64_half_sample float64_16000 float_mul.simps
  by (rule float64_eval [where e = "- 1"]) (simp_all add: round_half_even_def Let_def)

lemma float64_007: "float64 (7/100) = Fin (5044031582654956 / 2 ^ 56)"
  by (rule float64_eval [where e = "- 4"]) (simp_all add: round_half_even_def Let_def)

lemma float64_100: "float64 100 = Fin 100"
  by (rule float64_eval [where e = 6]) (simp_all add: round_half_even_def Let_def)

lemma float_product_007: "py_float_mul (7/100) 100 = Fin (7881299347898369 / 2 ^ 50)"
  unfolding py_float_mul_def float64_007 float64_100 float_mul.simps
  by (rule float64_eval [where e = 2]) (simp_all add: round_half_even_def Let_def)

text \<open>The pitch 69 is 440 Hz; at the pitch 12357 the exponent is 1024 and the power overflows.\<close>

lemma float64_69: "float64 69 = Fin 69"
  by (rule float64_eval [where e = 6]) (simp_all add: round_half_even_def Let_def)

lemma midi_pitch_to_hz_69: "midi_pitch_to_hz 69 = Inr 440"
  by (simp add: midi_pitch_to_hz_def float64_69 round64_def)

lemma float64_12357: "float64 12357 = Fin 12357"
  by (rule float64_eval [where e = 13]) (simp_all add: round_half_even_def Let_def)

lemma round64_12288: "round64 12288 = 12288"
  unfolding round64_def
  by (subst round_float_eval [where e = 13]) (simp_all add: round_half_even_def Let_def)

lemma round64_1024: "round64 1024 = 1024"
  unfolding round64_def
  by (subst round_float_eval [where e = 10]) (simp_all add: round_half_even_def Let_def)

lemma midi_pitch_to_hz_12357: "midi_pitch_to_hz 12357 = Inl OverflowError"
  by (simp add: midi_pitch_to_hz_def float64_12357 round64_12288 round64_1024)

section \<open>Length check of the tone mixer\<close>

lemma make_sine_wave_not_assert: "make_sine_wave f a d rate \<noteq> Inl AssertionError"
  by (cases "py_float_mul d rate") (simp_all add: make_sine_wave_def Let_def)

lemma tensor_iadd_not_assert: "tensor_iadd a b \<noteq> Inl AssertionError"
  by (simp add: tensor_iadd_def)

lemma mix_loop_not_assert: "mix_loop ps d rate acc \<noteq> Inl AssertionError"
proof (induction ps d rate acc rule: mix_loop.induct)
  case (1 duration rate chord_tone)
  show ?case by simp
next
  case (2 i j rest duration rate chord_tone)
  show ?case
  proof (cases "make_sine_wave i j duration rate")
    case (Inl e)
    with make_sine_wave_not_assert [of i j duration rate] show ?thesis by simp
  next
    case sine: (Inr sine_wave)
    show ?thesis
    proof (cases "tensor_iadd chord_tone sine_wave")
      case (Inl e)
      with sine tensor_iadd_not_assert [of chord_tone sine_wave] show ?thesis by simp
    next
      case (Inr chord_tone')
      with sine "2.IH" show ?thesis by simp
    qed
  qed
qed

lemma midi_pitch_to_hz_not_assert: "midi_pitch_to_hz p \<noteq> Inl AssertionError"
  by (simp add: midi_pitch_to_hz_def Let_def split: fval.splits)

lemma freq_loop_not_assert: "freq_loop ps \<noteq> Inl AssertionError"
proof (induction ps)
  case Nil
  show ?case by simp
next
  case (Cons p ps)
  then show ?case
    using midi_pitch_to_hz_not_assert [of p] by (auto split: sum.splits)
qed

lemma py_int_not_assert: "py_int v \<noteq> Inl AssertionError"
  by (cases v) simp_all

lemma torch_zeros_not_assert: "torch_zeros n \<noteq> Inl AssertionError"
  by (simp add: torch_zeros_def)

text \<open>
  C8. \<open>generate_multi_pitch_tone\<close> fails with the error of its length check (the
  \<open>assert\<close> on the two list lengths) if and only if the pitch list and the amplitude list
  have different lengths; with equal lengths the check passes and whatever the call
  returns or raises, it is not that error.
\<close>

theorem generate_multi_pitch_tone_length_check:
  "generate_multi_pitch_tone pitch_list amp_list duration rate = Inl AssertionError
     \<longleftrightarrow> length pitch_list \<noteq> length amp_list"
proof
  assume failed: "generate_multi_pitch_tone pitch_list amp_list duration rate = Inl AssertionError"
  show "length pitch_list \<noteq> length amp_list"
  proof
    assume same: "length pitch_list = length amp_list"
    from failed same show False
      using freq_loop_not_assert [of pitch_list] py_int_not_assert [of "py_float_mul duration rate"]
        torch_zeros_not_assert mix_loop_not_assert
      by (auto simp: generate_multi_pitch_tone_def split: sum.splits)
  qed
next
  assume "length pitch_list \<noteq> length amp_list"
  then show "generate_multi_pitch_tone pitch_list amp_list duration rate = Inl AssertionError"
    by (simp add: generate_multi_pitch_tone_def)
qed

section \<open>Sample counts and samples of a sine\<close>

lemma make_sine_wave_eq:
  "py_float_mul d rate = Fin x \<Longrightarrow> 0 \<le> x \<Longrightarrow> make_sine_wave f a d rate
     = Inr (map (\<lambda>n. a * sin (2 * pi * f * (real n / rate))) [0 ..< nat \<lceil>x\<rceil>])"
  by (simp add: make_sine_wave_def Let_def comp_def)

lemma make_sine_wave_neg:
  "py_float_mul d rate = Fin x \<Longrightarrow> x < 0 \<Longrightarrow> make_sine_wave f a d rate = Inl ArangeBounds"
  by (simp add: make_sine_wave_def Let_def)

lemma ceiling_unit: "0 < x \<Longrightarrow> x < 1 \<Longrightarrow> \<lceil>x::real\<rceil> = 1"
  by (simp add: ceiling_eq_iff)

lemma floor_lt_ceiling: "x \<notin> \<int> \<Longrightarrow> \<lceil>x::real\<rceil> = \<lfloor>x\<rfloor> + 1"
  by (simp add: ceiling_altdef Ints_def)
     (metis Ints_of_int Ints_def floor_of_int of_int_floor_cancel range_eqI)

lemma float64_nonneg: "0 \<le> a \<Longrightarrow> float64 a = Fin a' \<Longrightarrow> 0 \<le> a'"
  using round_float_nonneg [of a 53 "- 1022"]
  by (auto simp: float64_def round64_def Let_def split: if_splits)

lemma float64_not_nan [simp]: "float64 a \<noteq> NaN"
  by (simp add: float64_def Let_def)

text \<open>A duration and a sample rate that are not negative give no negative product.\<close>

lemma py_float_mul_nonneg:
  assumes "0 \<le> d" "0 \<le> rate" "py_float_mul d rate = Fin x"
  shows "0 \<le> x"
proof -
  from assms(3) obtain d' r' where f: "float64 d = Fin d'" "float64 rate = Fin r'"
    by (cases "float64 d"; cases "float64 rate") (auto simp: py_float_mul_def split: if_splits)
  have "0 \<le> d' * r'"
    using float64_nonneg [OF assms(1) f(1)] float64_nonneg [OF assms(2) f(2)] by simp
  moreover have "float64 (d' * r') = Fin x" using assms(3) f by (simp add: py_float_mul_def)
  ultimately show ?thesis by (rule float64_nonneg)
qed

text \<open>
  C7, as the code has it. Let x be the float product \<open>d * sr\<close>, finite and not
  negative (as it is for a duration \<open>d \<ge> 0\<close> and a sample rate \<open>sr \<ge> 0\<close>). Then
  \<open>make_sine_wave(f, a, d, sr)\<close> returns a waveform of exactly \<open>ceil(x)\<close> samples,
  which is \<open>round(x)\<close> whenever x is an integer; its n-th sample is
  \<open>a * sin(2 * pi * f * n / sr)\<close>, and duration 0 at a finite sample rate gives the
  empty waveform.
\<close>

theorem make_sine_wave_samples:
  assumes "py_float_mul d rate = Fin x" "0 \<le> x"
  shows "(\<exists>w. make_sine_wave f a d rate = Inr w \<and> length w = nat \<lceil>x\<rceil>
            \<and> (x \<in> \<int> \<longrightarrow> length w = nat (round x))
            \<and> (\<forall>n < length w. w ! n = a * sin (2 * pi * f * real n / rate)))
         \<and> (\<forall>r. float64 rate = Fin r \<longrightarrow> make_sine_wave f a 0 rate = Inr [])"
proof -
  let ?w = "map (\<lambda>n. a * sin (2 * pi * f * (real n / rate))) [0 ..< nat \<lceil>x\<rceil>]"
  have eq: "make_sine_wave f a d rate = Inr ?w"
    using assms by (rule make_sine_wave_eq)
  have len: "length ?w = nat \<lceil>x\<rceil>" by simp
  have rnd: "x \<in> \<int> \<longrightarrow> length ?w = nat (round x)"
    by (auto simp: Ints_def)
  have nth: "\<forall>n < length ?w. ?w ! n = a * sin (2 * pi * f * real n / rate)"
    by simp
  have zero: "make_sine_wave f a 0 rate = Inr []" if "float64 rate = Fin r" for r
  proof -
    have "py_float_mul 0 rate = Fin 0" using that by (simp add: py_float_mul_def)
    from make_sine_wave_eq [OF this, of f a] show ?thesis by simp
  qed
  from eq len rnd nth zero show ?thesis by blast
qed

text \<open>0.3 seconds at 16000 samples per second: 4800 samples.\<close>

theorem make_sine_wave_samples_witness:
  "map_sum id length (make_sine_wave 440 1 (3/10) 16000) = Inr 4800"
proof -
  have "(0::real) \<le> 4800" by simp
  from make_sine_wave_samples [OF float_product_03 this, of 440 1]
  obtain w where "make_sine_wave 440 1 (3/10) 16000 = Inr w"
    and "length w = nat \<lceil>4800 :: real\<rceil>"
    by blast
  then show ?thesis by simp
qed

text \<open>
  The count is not \<open>round(d * sr)\<close>: the float product of 0.4 and 3 is
  1.2000000000000002, which rounds to 1, and the waveform has 2 samples.
\<close>

theorem make_sine_wave_round_counterexample:
  "map_sum id length (make_sine_wave 440 1 (2/5) 3) = Inr 2
   \<and> py_float_mul (2/5) 3 = Fin (1351079888211149 / 2 ^ 50)
   \<and> nat (round (1351079888211149 / 2 ^ 50 :: real)) = 1"
  by (simp add: make_sine_wave_def float_product_04 Let_def round_def)

text \<open>The count follows the float product, not the real one.\<close>

lemma make_sine_wave_tenth_second:
  "map_sum id length (make_sine_wave 440 1 (1/10) 16000) = Inr 1600"
  by (simp add: make_sine_wave_def float_product_01 Let_def)

lemma make_sine_wave_seven_hundredths:
  "map_sum id length (make_sine_wave 440 1 (7/100) 100) = Inr 8"
  by (simp add: make_sine_wave_def float_product_007 Let_def)

section \<open>A single partial\<close>

lemma add_zeros: "map2 (+) (replicate (length w) (0::real)) w = w"
  by (induction w) simp_all

lemma tensor_iadd_zeros: "tensor_iadd (replicate (length w) 0) w = Inr w"
  by (simp add: tensor_iadd_def add_zeros)

text \<open>
  When the float product \<open>d * sr\<close> is a non-negative integer, the accumulator and the
  sine have the same size, and the mix of one partial is the sine itself.
\<close>

lemma generate_single_integral:
  assumes "midi_pitch_to_hz p = Inr freq" "py_float_mul d rate = Fin x" "0 \<le> x" "x \<in> \<int>"
  shows "generate_multi_pitch_tone [p] [a] d rate = make_sine_wave freq a d rate"
proof -
  from assms(4) obtain k :: int where k: "x = of_int k" by (auto simp: Ints_def)
  with assms(3) have k0: "0 \<le> k" by simp
  have z: "py_int (py_float_mul d rate) = Inr k"
    using k k0 assms(2) by simp
  have z': "torch_zeros k = Inr (replicate (nat k) 0)"
    using k0 by (simp add: torch_zeros_def)
  let ?w = "map (\<lambda>n. a * sin (2 * pi * freq * (real n / rate))) [0 ..< nat k]"
  have s: "make_sine_wave freq a d rate = Inr ?w"
    using make_sine_wave_eq [OF assms(2,3), of freq a] k by simp
  have "tensor_iadd (replicate (length ?w) 0) ?w = Inr ?w" by (rule tensor_iadd_zeros)
  then have i: "tensor_iadd (replicate (nat k) 0) ?w = Inr ?w" by simp
  show ?thesis
    unfolding generate_multi_pitch_tone_def using z z' s i assms(1) by simp
qed

text \<open>
  C4 at a duration whose sample count is not an integer. The float product of 0.00015
  seconds and 16000 samples per second is 2.4: \<open>make_sine_wave\<close> returns a waveform
  of 3 samples for 440 Hz, the frequency of the pitch 69, and
  \<open>generate_multi_pitch_tone\<close> on that single pitch returns no waveform: adding the
  sine to its accumulator of 2 samples raises.
\<close>

theorem generate_single_fractional:
  "midi_pitch_to_hz 69 = Inr 440
   \<and> generate_multi_pitch_tone [69] [1] (3/20000) 16000 = Inl SizeMismatch
   \<and> map_sum id length (make_sine_wave 440 1 (3/20000) 16000) = Inr 3"
  by (simp add: generate_multi_pitch_tone_def make_sine_wave_def midi_pitch_to_hz_69
      float_product_000015 Let_def torch_zeros_def tensor_iadd_def)

section \<open>Durations with a fractional sample count\<close>

lemma mix_loop_below_one:
  assumes "py_float_mul d rate = Fin x" "0 < x" "x < 1"
  shows "mix_loop ps d rate [] = Inr []"
proof (induction ps)
  case Nil
  show ?case by simp
next
  case (Cons p ps)
  obtain i j where p: "p = (i, j)" by (cases p)
  have c: "nat \<lceil>x\<rceil> = 1" using assms by (simp add: ceiling_unit)
  have s: "make_sine_wave i j d rate = Inr [j * sin (2 * pi * i * (real 0 / rate))]"
    using make_sine_wave_eq [OF assms(1), of i j] assms(2) c by simp
  show ?case using Cons.IH by (simp add: p s tensor_iadd_def)
qed

lemma mix_loop_above_one:
  assumes "py_float_mul d rate = Fin x" "1 < x" "x \<notin> \<int>"
  shows "mix_loop ((i, j) # rest) d rate (replicate (nat \<lfloor>x\<rfloor>) 0) = Inl SizeMismatch"
proof -
  have f1: "1 \<le> \<lfloor>x\<rfloor>" using assms(2) by linarith
  have c: "nat \<lceil>x\<rceil> = nat \<lfloor>x\<rfloor> + 1"
    using floor_lt_ceiling [OF assms(3)] f1 by (simp add: nat_add_distrib)
  have s: "make_sine_wave i j d rate
     = Inr (map (\<lambda>n. j * sin (2 * pi * i * (real n / rate))) [0 ..< nat \<lceil>x\<rceil>])"
    using make_sine_wave_eq [OF assms(1), of i j] assms(2) by simp
  have n1: "nat \<lfloor>x\<rfloor> \<noteq> 0" using f1 by simp
  show ?thesis
    unfolding mix_loop.simps s using n1 by (simp add: tensor_iadd_def c del: upt_Suc)
qed

text \<open>
  C10, as the code has it. Take a pitch list that is not empty and whose pitches all
  convert to a frequency, an amplitude list of the same length, and a duration and sample
  rate whose float product x is finite and not an integer. Above 1 the call raises the
  size mismatch: the accumulator has \<open>int(x)\<close> samples and the first sine
  \<open>ceil(x)\<close>, one more. Between 0 and 1 it returns the empty waveform: the
  accumulator has no sample, and a sine of one sample broadcasts onto it. Below 0 it
  raises another error (\<open>torch.arange\<close> or \<open>torch.zeros\<close> refuses the size).
\<close>

theorem generate_multi_pitch_tone_fractional:
  assumes "pitch_list \<noteq> []" "length pitch_list = length amp_list"
    and "freq_loop pitch_list = Inr freq_list"
    and "py_float_mul d rate = Fin x" "x \<notin> \<int>"
  shows "generate_multi_pitch_tone pitch_list amp_list d rate =
           (if x < - 1 then Inl NegativeDimension
            else if x < 0 then Inl ArangeBounds
            else if x < 1 then Inr []
            else Inl SizeMismatch)"
proof -
  have "length freq_list = length pitch_list"
    using assms(3)
  proof (induction pitch_list arbitrary: freq_list)
    case Nil
    then show ?case by simp
  next
    case (Cons p ps)
    then show ?case by (auto split: sum.splits)
  qed
  with assms(1,2) obtain f fs where fl: "freq_list = f # fs" by (cases freq_list) auto
  from assms(1,2) obtain a as where al: "amp_list = a # as" by (cases amp_list) auto
  have zipc: "zip freq_list amp_list = (f, a) # zip fs as" by (simp add: fl al)
  have x0: "x \<noteq> 0" "x \<noteq> 1" "x \<noteq> - 1" using assms(5) by auto
  have gen: "generate_multi_pitch_tone pitch_list amp_list d rate =
      (case torch_zeros (if 0 \<le> x then \<lfloor>x\<rfloor> else \<lceil>x\<rceil>) of
         Inl e \<Rightarrow> Inl e
       | Inr chord_tone \<Rightarrow> mix_loop (zip freq_list amp_list) d rate chord_tone)"
    using assms(2,3,4) by (simp add: generate_multi_pitch_tone_def)
  consider (a) "x < - 1" | (b) "- 1 < x" "x < 0" | (c) "0 < x" "x < 1" | (d) "1 < x"
    using x0 by linarith
  then show ?thesis
  proof cases
    case a
    then have "\<lceil>x\<rceil> < 0" by (simp add: ceiling_less_iff)
    with a show ?thesis by (simp add: gen torch_zeros_def)
  next
    case b
    then have "\<lceil>x\<rceil> = 0" by (simp add: ceiling_eq_iff)
    with b show ?thesis
      using zipc make_sine_wave_neg [OF assms(4), of f a]
      by (simp add: gen torch_zeros_def)
  next
    case c
    then have "\<lfloor>x\<rfloor> = 0" by (simp add: floor_eq_iff)
    with c show ?thesis
      using mix_loop_below_one [OF assms(4)] by (simp add: gen torch_zeros_def)
  next
    case d
    then have "0 \<le> \<lfloor>x\<rfloor>" by simp
    with d show ?thesis
      using assms(5) zipc mix_loop_above_one [OF assms(4), of f a]
      by (simp add: gen torch_zeros_def)
  qed
qed

lemma round64_le_pow2: "x \<le> pow2 k \<Longrightarrow> - 1074 \<le> k \<Longrightarrow> round64 x \<le> pow2 k"
  unfolding round64_def by (rule round_float_le_pow2) simp_all

text \<open>A pitch up to 4096 is far below the overflow of the power.\<close>

lemma midi_pitch_to_hz_converts:
  assumes "p \<le> 4096"
  shows "\<exists>f. midi_pitch_to_hz p = Inr f"
proof (cases "float64 p")
  case (Fin p')
  then have "p' = round64 p" by (auto simp: float64_def Let_def split: if_splits)
  moreover have "round64 p \<le> pow2 12" using assms by (intro round64_le_pow2) simp_all
  ultimately have "p' - 69 \<le> pow2 12" by simp
  then have "round64 (p' - 69) \<le> pow2 12" by (intro round64_le_pow2) simp_all
  then have "round64 (p' - 69) / 12 \<le> pow2 9" by simp
  then have "round64 (round64 (p' - 69) / 12) \<le> pow2 9" by (intro round64_le_pow2) simp_all
  then have "\<not> 1024 \<le> round64 (round64 (p' - 69) / 12)" by simp
  with Fin show ?thesis by (simp add: midi_pitch_to_hz_def Let_def)
qed (simp_all add: midi_pitch_to_hz_def)

lemma freq_loop_converts:
  "\<forall>p \<in> set ps. p \<le> 4096 \<Longrightarrow> \<exists>fs. freq_loop ps = Inr fs"
proof (induction ps)
  case Nil
  show ?case by simp
next
  case (Cons p ps)
  then obtain fs where "freq_loop ps = Inr fs" by auto
  moreover from Cons.prems obtain f where "midi_pitch_to_hz p = Inr f"
    using midi_pitch_to_hz_converts [of p] by auto
  ultimately show ?case by simp
qed

text \<open>A pitch whose power overflows ends the call before any sample is made.\<close>

lemma generate_multi_pitch_tone_overflow:
  "generate_multi_pitch_tone [12357] [1] (3/20000) 16000 = Inl OverflowError"
  by (simp add: generate_multi_pitch_tone_def midi_pitch_to_hz_12357)

lemma not_int_between: "of_int n < x \<Longrightarrow> x < of_int n + 1 \<Longrightarrow> (x::real) \<notin> \<int>"
proof
  assume a: "of_int n < x" "x < of_int n + 1" and "x \<in> \<int>"
  then obtain k :: int where "x = of_int k" by (auto simp: Ints_def)
  with a have "n < k" "k < n + 1" by simp_all
  then show False by simp
qed

text \<open>The chord of the docstring, for 0.00015 seconds at 16000 samples per second.\<close>

theorem generate_multi_pitch_tone_fractional_witness:
  "generate_multi_pitch_tone [60, 64, 67] [1, 0.7, 0.5] (3/20000) 16000 = Inl SizeMismatch"
proof -
  obtain fs where fs: "freq_loop [60, 64, 67] = Inr fs"
    using freq_loop_converts [of "[60, 64, 67]"] by auto
  have n: "(5404319552844595 / 2 ^ 51 :: real) \<notin> \<int>"
    by (rule not_int_between [of 2]) simp_all
  show ?thesis
    using generate_multi_pitch_tone_fractional
      [of "[60, 64, 67]" "[1, 0.7, 0.5]" fs "3/20000" 16000, OF _ _ fs float_product_000015 n]
    by simp
qed

text \<open>
  Half a sample (the float product of 0.00003125 seconds and 16000 samples per second)
  is not an integer sample count, and the call returns a waveform, the empty one,
  instead of raising.
\<close>

theorem generate_multi_pitch_tone_below_one_counterexample:
  "py_float_mul (1/32000) 16000 = Fin (1/2)
   \<and> generate_multi_pitch_tone [69] [1] (1/32000) 16000 = Inr []"
  by (simp add: generate_multi_pitch_tone_def make_sine_wave_def midi_pitch_to_hz_69
      float_product_half_sample Let_def torch_zeros_def tensor_iadd_def ceiling_unit)

text \<open>The duration of the Shepard generator, 0.3 seconds at 16000 Hz, on one partial.\<close>

lemma generate_three_tenths:
  "\<exists>w. generate_multi_pitch_tone [69] [1] (3/10) 16000 = Inr w \<and> length w = 4800"
proof -
  have "generate_multi_pitch_tone [69] [1] (3/10) 16000 = make_sine_wave 440 1 (3/10) 16000"
    by (rule generate_single_integral [OF midi_pitch_to_hz_69 float_product_03]) simp_all
  moreover have "make_sine_wave 440 1 (3/10) 16000
      = Inr (map (\<lambda>n. 1 * sin (2 * pi * 440 * (real n / 16000))) [0 ..< nat \<lceil>4800 :: real\<rceil>])"
    by (rule make_sine_wave_eq [OF float_product_03]) simp
  ultimately show ?thesis by simp
qed

section \<open>Decibels\<close>

text \<open>Below half the least subnormal number a float rounds to 0.\<close>

lemma round_float_tiny:
  assumes "0 \<le> x" "x < pow2 (emin - int p)"
  shows "round_float p emin x = 0"
proof (cases "x = 0")
  case True
  then show ?thesis by simp
next
  case False
  with assms(1) have x: "0 < x" by simp
  define l where "l = \<lfloor>log 2 \<bar>x\<bar>\<rfloor>"
  define s where "s = max l emin - int p + 1"
  have "pow2 l \<le> x" using floor_log2_bounds(1) [OF x] x by (simp add: l_def)
  then have "pow2 l < pow2 (emin - int p)" using assms(2) by linarith
  then have "l < emin - int p" by (simp add: pow2_def)
  then have s: "s = emin - int p + 1" by (simp add: s_def max_def)
  have "pow2 s = pow2 (emin - int p) * 2" using pow2_add [of "emin - int p" 1] by (simp add: s)
  then have "x * 2 < pow2 s" using assms(2) by simp
  then have half: "x / pow2 s < 1 / 2" by (simp add: pos_divide_less_eq)
  have nonneg: "0 \<le> x / pow2 s" using x by simp
  have "x / pow2 s < of_int 0 + 1" using half by linarith
  moreover have "of_int 0 \<le> x / pow2 s" using nonneg by simp
  ultimately have "\<lfloor>x / pow2 s\<rfloor> = 0" by (rule floor_unique [rotated])
  then have "round_half_even (x / pow2 s) = 0"
    using half by (simp add: round_half_even_def Let_def)
  then show ?thesis using False by (simp add: round_float_def Let_def s_def l_def)
qed

lemma float32_max_ge: "pow2 127 \<le> float32_max"
  by (simp add: float32_max_def)

text \<open>
  The bound of the clamp for a floor between the least and the largest power of two of
  float32.
\<close>

lemma clamp_bound_in_range:
  assumes "pow2 (- 149) \<le> eps" "eps \<le> pow2 127"
  shows "scalar_to_float32 (float64 eps) = Inr (Fin (round32 (round64 eps)))"
    and "pow2 (- 149) \<le> round32 (round64 eps)"
proof -
  have lo: "pow2 (- 149) \<le> round64 eps"
    unfolding round64_def using assms(1) by (rule round_float_ge_pow2) simp_all
  have hi: "round64 eps \<le> pow2 127"
    using assms(2) by (rule round64_le_pow2) simp
  have "pow2 127 < pow2 1024" by simp
  with hi have fin: "float64 eps = Fin (round64 eps)"
    using lo pow2_pos [of "- 149"] pow2_pos [of 1024] by (simp add: float64_def Let_def)
  have "\<bar>round64 eps\<bar> \<le> float32_max"
    using hi lo pow2_pos [of "- 149"] float32_max_ge by linarith
  then show "scalar_to_float32 (float64 eps) = Inr (Fin (round32 (round64 eps)))"
    by (simp add: fin)
  show "pow2 (- 149) \<le> round32 (round64 eps)"
    unfolding round32_def using lo by (rule round_float_ge_pow2) simp_all
qed

lemma db_of_finite:
  "0 < m \<Longrightarrow> fval_scale 10 (fval_log10 (fval_clamp_min (Fin m) (Fin x))) = Fin (10 * log 10 (max x m))"
  by (simp add: max_def)

lemma db_not_minus_infinity:
  "0 < m \<Longrightarrow> fval_scale 10 (fval_log10 (fval_clamp_min (Fin m) v)) \<noteq> NInf"
  by (cases v) (simp_all add: max_def)

lemma round64_default_floor: "round64 (1 / 10 ^ 10) = 7737125245533627 / 2 ^ 86"
  unfolding round64_def
  by (subst round_float_eval [where e = "- 34"]) (simp_all add: round_half_even_def Let_def)

lemma round32_default_floor: "round32 (7737125245533627 / 2 ^ 86) = 14411519 / 2 ^ 57"
  unfolding round32_def
  by (subst round_float_eval [where e = "- 34"]) (simp_all add: round_half_even_def Let_def)

lemma ln_10_ge_1: "1 \<le> ln (10::real)"
proof -
  have "exp 1 \<le> (10::real)" using exp_le by linarith
  then have "ln (exp 1) \<le> ln (10::real)" by (intro ln_mono) simp_all
  then show ?thesis by simp
qed

lemma log10_near_one:
  assumes "1 \<le> z"
  shows "0 \<le> log 10 z" "log 10 z \<le> z - 1"
proof -
  have z: "0 < z" using assms by simp
  have l0: "0 \<le> ln z" using assms by simp
  show "0 \<le> log 10 z" using assms by simp
  have "log 10 z = ln z / ln 10" by (simp add: log_def)
  also have "\<dots> \<le> ln z / 1" using l0 ln_10_ge_1 by (intro divide_left_mono) simp_all
  also have "\<dots> \<le> z - 1" using ln_le_minus_one [OF z] by simp
  finally show "log 10 z \<le> z - 1" .
qed

lemma db_default_floor:
  "\<bar>10 * log 10 (14411519 / 2 ^ 57) + 100\<bar> < 1 / 10 ^ 6"
proof -
  define z :: real where "z = 14411519 * 10 ^ 10 / 2 ^ 57"
  have z1: "1 \<le> z" by (simp add: z_def)
  have "(14411519 / 2 ^ 57 :: real) = z / 10 ^ 10" by (simp add: z_def)
  then have "log 10 (14411519 / 2 ^ 57) = log 10 (z / 10 ^ 10)" by (rule arg_cong)
  also have "\<dots> = log 10 z - log 10 ((10::real) ^ 10)"
    using z1 by (subst log_divide) (simp_all del: log_pow_cancel)
  also have "log 10 ((10::real) ^ 10) = real 10"
    by (rule log_pow_cancel) simp_all
  finally have "log 10 (14411519 / 2 ^ 57) = log 10 z - 10" by simp
  then have eq: "10 * log 10 (14411519 / 2 ^ 57) + 100 = 10 * log 10 z" by linarith
  define t :: real where "t = 1 / 10 ^ 6"
  have "0 \<le> log 10 z" "log 10 z \<le> z - 1" using log10_near_one [OF z1] by simp_all
  moreover have "10 * (z - 1) < t" by (simp add: z_def t_def)
  ultimately have l: "0 \<le> 10 * log 10 z" "10 * log 10 z < t" by simp_all
  then have "\<bar>10 * log 10 z\<bar> < t" by (simp only: abs_of_nonneg)
  then show ?thesis unfolding eq t_def .
qed

lemma amplitude_to_db_nth:
  "scalar_to_float32 (float64 eps) = Inr m \<Longrightarrow>
   i < length spectrogram \<Longrightarrow> j < length (spectrogram ! i) \<Longrightarrow>
     \<exists>db. amplitude_to_db spectrogram eps = Inr db
       \<and> length db = length spectrogram \<and> length (db ! i) = length (spectrogram ! i)
       \<and> db ! i ! j = fval_scale 10 (fval_log10 (fval_clamp_min m (spectrogram ! i ! j)))"
  by (simp add: amplitude_to_db_def)

text \<open>
  C3, as the code has it. Let the floor \<open>eps\<close> lie between \<open>2 ^ -149\<close>, the least
  positive float32, and \<open>2 ^ 127\<close>, and let m be \<open>eps\<close> as a float32, the bound the
  clamp uses. Then m is positive, \<open>amplitude_to_db\<close> keeps the shape and maps each
  finite value \<open>x\<close> to \<open>10 * log10(max(x, m))\<close>, and no value of its result is minus
  infinity, whatever the input value (finite, infinite or not a number). With the
  default floor \<open>1e-10\<close> no value is minus infinity either, and an input value of
  exactly 0 becomes \<open>10 * log10(m)\<close>, which is -100 to within one millionth.
\<close>

theorem amplitude_to_db_clamped:
  assumes "pow2 (- 149) \<le> eps" "eps \<le> pow2 127"
    and "i < length spectrogram" "j < length (spectrogram ! i)"
  shows "0 < round32 (round64 eps)
     \<and> (\<exists>db. amplitude_to_db spectrogram eps = Inr db
          \<and> length db = length spectrogram \<and> length (db ! i) = length (spectrogram ! i)
          \<and> (\<forall>x. spectrogram ! i ! j = Fin x \<longrightarrow>
                 db ! i ! j = Fin (10 * log 10 (max x (round32 (round64 eps)))))
          \<and> db ! i ! j \<noteq> NInf)
     \<and> (\<exists>db. amplitude_to_db_default spectrogram = Inr db
          \<and> db ! i ! j \<noteq> NInf
          \<and> (spectrogram ! i ! j = Fin 0 \<longrightarrow>
                 (\<exists>y. db ! i ! j = Fin y \<and> \<bar>y + 100\<bar> < 1 / 10 ^ 6)))"
proof -
  let ?m = "round32 (round64 eps)"
  note b = clamp_bound_in_range [OF assms(1,2)]
  have m: "0 < ?m" using b(2) pow2_pos [of "- 149"] by linarith
  from amplitude_to_db_nth [OF b(1) assms(3,4)]
  obtain db where db: "amplitude_to_db spectrogram eps = Inr db"
    "length db = length spectrogram" "length (db ! i) = length (spectrogram ! i)"
    "db ! i ! j = fval_scale 10 (fval_log10 (fval_clamp_min (Fin ?m) (spectrogram ! i ! j)))"
    by blast
  have fin: "\<forall>x. spectrogram ! i ! j = Fin x \<longrightarrow> db ! i ! j = Fin (10 * log 10 (max x ?m))"
    using db(4) db_of_finite [OF m] by simp
  have ninf: "db ! i ! j \<noteq> NInf"
    using db(4) db_not_minus_infinity [OF m] by simp
  let ?m0 = "14411519 / 2 ^ 57 :: real"
  have d0: "pow2 (- 149) \<le> (1 / 10 ^ 10 :: real)" "(1 / 10 ^ 10 :: real) \<le> pow2 127"
    by simp_all
  have b0: "scalar_to_float32 (float64 (1 / 10 ^ 10)) = Inr (Fin ?m0)"
    using clamp_bound_in_range(1) [OF d0]
    by (simp only: round64_default_floor round32_default_floor)
  have m0: "0 < ?m0" by simp
  from amplitude_to_db_nth [OF b0 assms(3,4)]
  obtain db0 where db0: "amplitude_to_db_default spectrogram = Inr db0"
    "db0 ! i ! j = fval_scale 10 (fval_log10 (fval_clamp_min (Fin ?m0) (spectrogram ! i ! j)))"
    unfolding amplitude_to_db_default_def by blast
  have ninf0: "db0 ! i ! j \<noteq> NInf"
    using db0(2) db_not_minus_infinity [OF m0] by simp
  have zero: "\<exists>y. db0 ! i ! j = Fin y \<and> \<bar>y + 100\<bar> < 1 / 10 ^ 6"
    if "spectrogram ! i ! j = Fin 0"
  proof -
    have "db0 ! i ! j = Fin (10 * log 10 ?m0)"
      using db0(2) that db_of_finite [OF m0, of 0] by (simp add: max_def)
    with db_default_floor show ?thesis by blast
  qed
  from m db(1,2,3) fin ninf db0(1) ninf0 zero show ?thesis by blast
qed

text \<open>A two by two spectrogram with the floor 0.01.\<close>

theorem amplitude_to_db_clamped_witness:
  "\<exists>db. amplitude_to_db [[Fin 1, Fin 0], [Fin 100, PInf]] (1 / 100) = Inr db
     \<and> db ! 1 ! 0 = Fin (10 * log 10 100) \<and> db ! 0 ! 1 \<noteq> NInf"
proof -
  have r: "pow2 (- 149) \<le> (1 / 100 :: real)" "(1 / 100 :: real) \<le> pow2 127" by simp_all
  let ?s = "[[Fin 1, Fin 0], [Fin 100, PInf]]"
  from amplitude_to_db_clamped [OF r, of 1 ?s 0]
  obtain db where a: "amplitude_to_db ?s (1 / 100) = Inr db"
    "\<forall>x. ?s ! 1 ! 0 = Fin x \<longrightarrow> db ! 1 ! 0 = Fin (10 * log 10 (max x (round32 (round64 (1 / 100)))))"
    by auto
  have le: "round32 (round64 (1 / 100)) \<le> pow2 0"
    unfolding round32_def
    by (rule round_float_le_pow2, rule order_trans [OF round64_le_pow2 [of _ 0]]) simp_all
  from a(2) have "db ! 1 ! 0 = Fin (10 * log 10 (max 100 (round32 (round64 (1 / 100)))))" by simp
  with le have v: "db ! 1 ! 0 = Fin (10 * log 10 100)" by (simp add: max_def)
  from amplitude_to_db_clamped [OF r, of 0 ?s 1]
  obtain db' where b: "amplitude_to_db ?s (1 / 100) = Inr db'" "db' ! 0 ! 1 \<noteq> NInf"
    by auto
  from a(1) b v show ?thesis by simp
qed

text \<open>
  Not every positive floor keeps minus infinity out: \<open>1e-50\<close> is 0 as a float32, the
  clamp leaves an input value of 0 at 0, and its logarithm is minus infinity.
\<close>

theorem amplitude_to_db_tiny_floor_counterexample:
  "amplitude_to_db [[Fin 0]] (1 / 10 ^ 50) = Inr [[NInf]]"
proof -
  have lo: "0 \<le> round64 (1 / 10 ^ 50)"
    unfolding round64_def by (rule round_float_nonneg) simp
  have hi: "round64 (1 / 10 ^ 50) \<le> pow2 (- 166)"
    by (rule round64_le_pow2) simp_all
  have "pow2 (- 166) < pow2 1024" by simp
  with lo hi have fin: "float64 (1 / 10 ^ 50) = Fin (round64 (1 / 10 ^ 50))"
    using pow2_pos [of 1024] by (simp add: float64_def Let_def)
  have "pow2 (- 166) < pow2 (- 126 - int 24)" by simp
  with hi have "round64 (1 / 10 ^ 50) < pow2 (- 126 - int 24)" by linarith
  with lo have zero: "round32 (round64 (1 / 10 ^ 50)) = 0"
    unfolding round32_def by (rule round_float_tiny)
  have "pow2 (- 166) \<le> float32_max" by (simp add: float32_max_def)
  with lo hi have "\<bar>round64 (1 / 10 ^ 50)\<bar> \<le> float32_max" by linarith
  then have "scalar_to_float32 (float64 (1 / 10 ^ 50)) = Inr (Fin 0)"
    by (simp only: fin scalar_to_float32.simps zero) simp
  then show ?thesis unfolding amplitude_to_db_def by (simp only:) simp
qed

section \<open>The amplitude table of the Shepard tone\<close>

lemma upt_3: "[0 ..< 3] = [0, 1, 2]"
  by (simp add: upt_rec)

lemma fill_row:
  "fold (\<lambda>j. amplitude_fill i j) [0 ..< 3] output
     = output[i := (output ! i)[1 := 1, 2 := exp (- 0.388 * real i)]]"
  by (cases "i < length output")
     (simp_all add: upt_3 amplitude_fill_def tensor2_set_def not_less list_update_beyond)

lemma mirror_row:
  "fold (\<lambda>j. amplitude_mirror i j) [0 ..< 3] output
     = output[i := (output ! i)[0 := output ! (23 - i) ! 2]]"
  by (simp add: upt_3 amplitude_mirror_def tensor2_set_def)

text \<open>
  A loop over the rows \<open>0, ..., n - 1\<close> that rewrites row i from row i alone, and the
  second loop of \<open>define_amplitude\<close>, which reads column 2 of another row: that column
  is never written by it.
\<close>

lemma fold_rows_local:
  "length (fold (\<lambda>i a. a[i := g i (a ! i)]) [0 ..< n] output) = length output
   \<and> (\<forall>k < length output.
        fold (\<lambda>i a. a[i := g i (a ! i)]) [0 ..< n] output ! k
          = (if k < n then g k (output ! k) else output ! k))"
proof (induction n)
  case 0
  show ?case by simp
next
  case (Suc n)
  show ?case
  proof (cases "n < length output")
    case True
    with Suc show ?thesis by (simp add: nth_list_update less_Suc_eq)
  next
    case False
    with Suc show ?thesis by (simp add: list_update_beyond not_less)
  qed
qed

lemma replicate_3: "replicate 3 x = [x, x, x]"
  by (simp add: numeral_3_eq_3)

lemma row_of_zeros: "[0, 0, 0 :: real][1 := 1, 2 := v] = [0, 1, v]"
  by (simp add: numeral_2_eq_2)

lemma fold_rows_mirror:
  assumes "length output = 24" "n \<le> 24"
  shows "length (fold (\<lambda>i a. a[i := (a ! i)[0 := a ! (23 - i) ! 2]]) [0 ..< n] output) = 24
   \<and> (\<forall>k < 24.
        fold (\<lambda>i a. a[i := (a ! i)[0 := a ! (23 - i) ! 2]]) [0 ..< n] output ! k
          = (if k < n then (output ! k)[0 := output ! (23 - k) ! 2] else output ! k))"
  using assms(2)
proof (induction n)
  case 0
  show ?case using assms(1) by simp
next
  case (Suc n)
  let ?r = "fold (\<lambda>i a. a[i := (a ! i)[0 := a ! (23 - i) ! 2]]) [0 ..< n] output"
  from Suc have n: "n < 24" and m: "23 - n < 24" by simp_all
  from Suc have len: "length ?r = 24"
    and nth: "\<And>k. k < 24 \<Longrightarrow> ?r ! k
          = (if k < n then (output ! k)[0 := output ! (23 - k) ! 2] else output ! k)"
    by simp_all
  have col2: "?r ! (23 - n) ! 2 = output ! (23 - n) ! 2"
    using nth [OF m] by simp
  have row: "?r ! n = output ! n"
    using nth [OF n] by simp
  have step: "fold (\<lambda>i a. a[i := (a ! i)[0 := a ! (23 - i) ! 2]]) [0 ..< Suc n] output
      = ?r[n := (output ! n)[0 := output ! (23 - n) ! 2]]"
    by (simp add: col2 row)
  show ?case
    unfolding step using len nth n by (simp add: nth_list_update)
qed

text \<open>The rows of the finished table.\<close>

lemma define_amplitude_rows:
  "length define_amplitude = 24"
  "i < 24 \<Longrightarrow> define_amplitude ! i
      = [exp (- 0.388 * real (23 - i)), 1, exp (- 0.388 * real i)]"
proof -
  define g :: "nat \<Rightarrow> real list \<Rightarrow> real list"
    where "g = (\<lambda>i row. row[1 := 1, 2 := exp (- 0.388 * real i)])"
  let ?zero = "replicate 24 (replicate 3 (0::real))"
  let ?t = "fold (\<lambda>i a. a[i := g i (a ! i)]) [0 ..< 24] ?zero"
  have fill: "(\<lambda>i. fold (\<lambda>j. amplitude_fill i j) [0 ..< 3]) = (\<lambda>i a. a[i := g i (a ! i)])"
    by (intro ext) (simp only: fill_row g_def)
  have mirror: "(\<lambda>i. fold (\<lambda>j. amplitude_mirror i j) [0 ..< 3])
      = (\<lambda>i a. a[i := (a ! i)[0 := a ! (23 - i) ! 2]])"
    by (intro ext) (simp only: mirror_row)
  have lt: "length ?t = 24" using fold_rows_local [of g 24 ?zero] by simp
  have t: "?t ! k = [0, 1, exp (- 0.388 * real k)]" if "k < 24" for k
    using fold_rows_local [of g 24 ?zero] that by (simp add: g_def replicate_3 row_of_zeros)
  have d: "define_amplitude = fold (\<lambda>i a. a[i := (a ! i)[0 := a ! (23 - i) ! 2]]) [0 ..< 24] ?t"
    unfolding define_amplitude_def Let_def fill mirror ..
  show "length define_amplitude = 24"
    using fold_rows_mirror [OF lt, of 24] d by simp
  show "define_amplitude ! i = [exp (- 0.388 * real (23 - i)), 1, exp (- 0.388 * real i)]"
    if "i < 24"
  proof -
    have "23 - i < 24" by simp
    from t [OF this] t [OF that] fold_rows_mirror [OF lt, of 24] that d show ?thesis
      by (simp add: numeral_2_eq_2)
  qed
qed

text \<open>
  C2. The table returned by \<open>define_amplitude\<close> has 24 rows of 3 gains; in every row
  i from 0 to 23 the gain in column 1 is 1.0 and the gain in column 0 is the gain in
  column 2 of row \<open>23 - i\<close>.
\<close>

theorem define_amplitude_symmetric:
  "length define_amplitude = 24
   \<and> (\<forall>i < 24. length (define_amplitude ! i) = 3
         \<and> define_amplitude ! i ! 1 = 1
         \<and> define_amplitude ! i ! 0 = define_amplitude ! (23 - i) ! 2)"
proof -
  have "length (define_amplitude ! i) = 3
         \<and> define_amplitude ! i ! 1 = 1
         \<and> define_amplitude ! i ! 0 = define_amplitude ! (23 - i) ! 2" if "i < 24" for i
  proof -
    have "23 - i < 24" by simp
    from define_amplitude_rows(2) [OF this] define_amplitude_rows(2) [OF that]
    show ?thesis by simp
  qed
  with define_amplitude_rows(1) show ?thesis by blast
qed

theorem define_amplitude_symmetric_witness:
  "define_amplitude ! 5 ! 1 = 1 \<and> define_amplitude ! 5 ! 0 = define_amplitude ! 18 ! 2"
  using define_amplitude_symmetric by simp

section \<open>The mel scale\<close>

text \<open>
  C5. \<open>hz_to_mel\<close> keeps the shape of its tensor and maps every frequency value
  \<open>hz\<close> to \<open>2595 * log10(1 + hz / 700)\<close>. The logarithm has a real value for
  \<open>hz > -700\<close>, which holds for every frequency; at \<open>-700\<close> and below, the code
  returns minus infinity and not-a-number (\<open>hz_to_mel_edge\<close>).
\<close>

theorem hz_to_mel_formula:
  assumes "i < length hz" "hz ! i = Fin x" "- 700 < x"
  shows "length (hz_to_mel hz) = length hz
       \<and> hz_to_mel hz ! i = Fin (2595 * log 10 (1 + x / 700))"
proof -
  have pos: "0 < 1 + x / 700" using assms(3) by simp
  show ?thesis
    using assms(1,2) pos by (simp add: hz_to_mel_def)
qed

text \<open>700 Hz are \<open>2595 * log10(2)\<close> mel.\<close>

theorem hz_to_mel_formula_witness:
  "hz_to_mel [Fin 0, Fin 700] ! 1 = Fin (2595 * log 10 2)"
  using hz_to_mel_formula [of 1 "[Fin 0, Fin 700]" 700] by simp

text \<open>Outside the domain of the logarithm.\<close>

lemma hz_to_mel_edge:
  "hz_to_mel [Fin (- 700)] = [NInf]" "x < - 700 \<Longrightarrow> hz_to_mel [Fin x] = [NaN]"
  by (simp_all add: hz_to_mel_def)

section \<open>Slices, ranges and frames\<close>

lemma slice_index_inside: "0 \<le> i \<Longrightarrow> i \<le> int len \<Longrightarrow> slice_index len i = nat i"
  by (simp add: slice_index_def)

lemma py_slice_window:
  assumes "0 \<le> s" "0 \<le> n" "s + n \<le> int (length xs)"
  shows "py_slice xs s (s + n) = take (nat n) (drop (nat s) xs)"
proof -
  have a: "slice_index (length xs) s = nat s"
    using assms by (intro slice_index_inside) simp_all
  have b: "slice_index (length xs) (s + n) = nat (s + n)"
    using assms by (intro slice_index_inside) simp_all
  have c: "nat (s + n) - nat s = nat n" using assms by simp
  show ?thesis by (simp add: py_slice_def Let_def a b c)
qed

lemma py_slice_take:
  assumes "0 \<le> s" "0 \<le> n" "s + n \<le> int M" "M \<le> length xs"
  shows "py_slice (take M xs) s (s + n) = py_slice xs s (s + n)"
proof -
  have l: "s + n \<le> int (length (take M xs))" "s + n \<le> int (length xs)"
    using assms by simp_all
  have le: "nat n \<le> M - nat s" using assms by linarith
  have "take (nat n) (drop (nat s) (take M xs)) = take (nat n) (drop (nat s) xs)"
    using le by (simp add: drop_take min_def)
  then show ?thesis
    using py_slice_window [OF assms(1,2) l(1)] py_slice_window [OF assms(1,2) l(2)] by simp
qed

lemma torch_hann_window_length:
  "torch_hann_window n = Inr w \<Longrightarrow> length w = nat n"
  by (auto simp: torch_hann_window_def split: if_splits)

lemma init_fields:
  assumes "SpectrogramConverter_init n h rate m p fb = Inr self"
  shows "n_fft self = n" "hop_size self = h" "power' self = p"
    "torch_hann_window n = Inr (window_tensor self)" "length (window_tensor self) = nat n"
proof -
  from assms obtain w where w: "torch_hann_window n = Inr w"
    and self: "self = \<lparr> n_fft = n, hop_size = h, sr = rate, num_mels = m, window_tensor = w,
        power' = p, mel_fb = fb \<rparr>"
    by (auto simp: SpectrogramConverter_init_def split: sum.splits)
  from self show "n_fft self = n" "hop_size self = h" "power' self = p" by simp_all
  from self w show "torch_hann_window n = Inr (window_tensor self)" by simp
  from self w show "length (window_tensor self) = nat n"
    by (simp add: torch_hann_window_length)
qed

lemma spectrogram_frame_full:
  assumes "length (window_tensor self) = nat (n_fft self)" "0 < n_fft self"
    and "0 \<le> start" "start + n_fft self \<le> int (length audio)"
  shows "spectrogram_frame self audio start
     = Inr (map (\<lambda>z. tensor_pow (cmod z) (power' self))
              (dft (map2 (*) (take (nat (n_fft self)) (drop (nat start) audio)) (window_tensor self))))"
proof -
  have n0: "0 \<le> n_fft self" using assms(2) by simp
  have sl: "py_slice audio start (start + n_fft self) = take (nat (n_fft self)) (drop (nat start) audio)"
    using py_slice_window [OF assms(3) n0 assms(4)] .
  have len: "length (take (nat (n_fft self)) (drop (nat start) audio)) = nat (n_fft self)"
    using assms(3,4) n0 by simp
  have ne: "map2 (*) (take (nat (n_fft self)) (drop (nat start) audio)) (window_tensor self) \<noteq> []"
    using len assms(1,2) by (metis length_0_conv length_map length_zip min.idem nat_0_iff not_less)
  show ?thesis
    unfolding spectrogram_frame_def Let_def sl
    using len assms(1) ne by (simp add: tensor_mul_def torch_fft_def)
qed

lemma spectrogram_frame_length:
  assumes "length (window_tensor self) = nat (n_fft self)" "0 < n_fft self"
    and "0 \<le> start" "start + n_fft self \<le> int (length audio)"
    and "spectrogram_frame self audio start = Inr f"
  shows "length f = nat (n_fft self)"
  using spectrogram_frame_full [OF assms(1-4)] assms by (auto simp: dft_def)

lemma spectrogram_frame_take:
  assumes "0 \<le> n_fft self" "0 \<le> start" "start + n_fft self \<le> int M" "M \<le> length audio"
  shows "spectrogram_frame self (take M audio) start = spectrogram_frame self audio start"
  unfolding spectrogram_frame_def Let_def
  using py_slice_take [OF assms(2) assms(1) assms(3,4)] by simp

lemma frames_loop_full:
  assumes "length (window_tensor self) = nat (n_fft self)" "0 < n_fft self"
    and "\<forall>start \<in> set indices. 0 \<le> start \<and> start + n_fft self \<le> int (length audio)"
  shows "\<exists>frames. frames_loop self audio indices out = Inr (out @ frames)
           \<and> length frames = length indices
           \<and> (\<forall>f \<in> set frames. length f = nat (n_fft self))"
  using assms(3)
proof (induction indices arbitrary: out)
  case Nil
  show ?case by simp
next
  case (Cons start rest)
  then have s: "0 \<le> start" "start + n_fft self \<le> int (length audio)" by simp_all
  let ?f = "map (\<lambda>z. tensor_pow (cmod z) (power' self))
              (dft (map2 (*) (take (nat (n_fft self)) (drop (nat start) audio)) (window_tensor self)))"
  have fr: "spectrogram_frame self audio start = Inr ?f"
    using spectrogram_frame_full [OF assms(1,2) s] .
  have lf: "length ?f = nat (n_fft self)"
    using spectrogram_frame_length [OF assms(1,2) s fr] .
  from Cons.prems have "\<forall>start \<in> set rest. 0 \<le> start \<and> start + n_fft self \<le> int (length audio)"
    by simp
  from Cons.IH [OF this, of "out @ [?f]"]
  obtain frames where fs: "frames_loop self audio rest (out @ [?f]) = Inr ((out @ [?f]) @ frames)"
    "length frames = length rest" "\<forall>f \<in> set frames. length f = nat (n_fft self)"
    by blast
  have "frames_loop self audio (start # rest) out = Inr (out @ (?f # frames))"
    using fr fs(1) by simp
  moreover have "length (?f # frames) = length (start # rest)" using fs(2) by simp
  moreover have "\<forall>f \<in> set (?f # frames). length f = nat (n_fft self)"
    using lf fs(3) by simp
  ultimately show ?case by blast
qed

lemma frames_loop_take:
  assumes "0 \<le> n_fft self" "M \<le> length audio"
    and "\<forall>start \<in> set indices. 0 \<le> start \<and> start + n_fft self \<le> int M"
  shows "frames_loop self (take M audio) indices out = frames_loop self audio indices out"
  using assms(3)
proof (induction indices arbitrary: out)
  case Nil
  show ?case by simp
next
  case (Cons start rest)
  then have "spectrogram_frame self (take M audio) start = spectrogram_frame self audio start"
    using spectrogram_frame_take [OF assms(1) _ _ assms(2), of start] by simp
  with Cons show ?case by (simp split: sum.splits)
qed

lemma py_range_forward:
  "0 < step \<Longrightarrow> 0 < hi \<Longrightarrow>
     py_range 0 hi step = Inr (map (\<lambda>k. int k * step) [0 ..< nat (1 + (hi - 1) div step)])"
  by (simp add: py_range_def range_length_def)

lemma py_range_empty:
  "0 < step \<Longrightarrow> hi \<le> 0 \<Longrightarrow> py_range 0 hi step = Inr []"
  by (simp add: py_range_def range_length_def)

lemma torch_stack1_shape:
  assumes "ts \<noteq> []" "\<forall>t \<in> set ts. length t = n"
  shows "torch_stack1 ts = Inr (map (\<lambda>k. map (\<lambda>t. t ! k) ts) [0 ..< n])"
proof -
  have hd: "length (hd ts) = n" using assms by (cases ts) simp_all
  have "\<not> list_ex (\<lambda>t. length t \<noteq> length (hd ts)) ts"
    using assms(2) hd by (simp add: list_ex_iff)
  then show ?thesis using assms(1) hd by (simp add: torch_stack1_def)
qed

lemma frame_index_bounds:
  fixes N n h :: int
  assumes "0 < h" "n \<le> N" "k < nat (1 + (N - n) div h)"
  shows "0 \<le> int k * h" "int k * h + n \<le> N"
    "int k * h + n \<le> ((N - n) div h) * h + n"
proof -
  have q0: "0 \<le> (N - n) div h" using assms(1,2) by (simp add: pos_imp_zdiv_nonneg_iff)
  have kq: "int k \<le> (N - n) div h" using assms(3) q0 by linarith
  show "0 \<le> int k * h" using assms(1) by simp
  have "int k * h \<le> ((N - n) div h) * h" using kq assms(1) by (simp add: mult_right_mono)
  then show "int k * h + n \<le> ((N - n) div h) * h + n" by simp
  moreover have "((N - n) div h) * h \<le> N - n"
    using assms(1) by (metis mult.commute pos_mod_sign mult_div_mod_eq add.commute le_add_same_cancel1 add.right_neutral add_le_cancel_left)
  ultimately show "int k * h + n \<le> N" by linarith
qed

section \<open>Shape of the spectrogram\<close>

lemma get_spectrogram_1d:
  "get_spectrogram self (Tensor1 samples) =
     (case py_range 0 (int (length samples) - n_fft self + 1) (hop_size self) of
        Inl e \<Rightarrow> Inl e
      | Inr indices \<Rightarrow>
          (case frames_loop self samples indices [] of
             Inl e \<Rightarrow> Inl e
           | Inr out \<Rightarrow>
               (case torch_stack1 out of
                  Inl e \<Rightarrow> Inl e
                | Inr stacked \<Rightarrow> Inr (py_slice stacked 0 (n_fft self div 2 + 1)))))"
  by (simp add: get_spectrogram_def)

text \<open>A hop size of 0 is refused by \<open>range\<close> before any frame is cut.\<close>

lemma get_spectrogram_zero_hop:
  "hop_size self = 0 \<Longrightarrow> get_spectrogram self (Tensor1 audio) = Inl ValueError"
  by (simp add: get_spectrogram_1d py_range_def)

text \<open>
  C9. With a positive hop size, a one-dimensional audio of fewer than \<open>n_fft\<close> samples
  makes \<open>get_spectrogram\<close> raise: the frame loop does not run, and \<open>torch.stack\<close>
  refuses the empty list of frames. No spectrogram with zero time frames is returned, so
  the frame count formula is only about audio of at least \<open>n_fft\<close> samples.
\<close>

theorem get_spectrogram_short_audio:
  assumes "0 < hop_size self" "int (length audio) < n_fft self"
  shows "get_spectrogram self (Tensor1 audio) = Inl StackEmptyList"
proof -
  have "int (length audio) - n_fft self + 1 \<le> 0" using assms(2) by simp
  then have "py_range 0 (int (length audio) - n_fft self + 1) (hop_size self) = Inr []"
    using assms(1) by (rule py_range_empty [rotated])
  then show ?thesis by (simp add: get_spectrogram_1d torch_stack1_def)
qed

text \<open>
  With at least \<open>n_fft\<close> samples every round of the frame loop succeeds, on a full
  window, and the stacked columns are cut to the first \<open>n_fft // 2 + 1\<close> rows.
\<close>

lemma get_spectrogram_frames:
  assumes w: "length (window_tensor self) = nat (n_fft self)"
    and n: "0 < n_fft self" and h: "0 < hop_size self"
    and N: "n_fft self \<le> int (length audio)"
  shows "\<exists>frames. frames_loop self audio
             (map (\<lambda>k. int k * hop_size self)
                [0 ..< nat (1 + (int (length audio) - n_fft self) div hop_size self)]) []
            = Inr frames
         \<and> length frames = nat (1 + (int (length audio) - n_fft self) div hop_size self)
         \<and> (\<forall>f \<in> set frames. length f = nat (n_fft self))
         \<and> get_spectrogram self (Tensor1 audio)
            = Inr (take (nat (n_fft self div 2 + 1))
                     (map (\<lambda>k. map (\<lambda>t. t ! k) frames) [0 ..< nat (n_fft self)]))"
proof -
  let ?N = "int (length audio)"
  let ?F = "nat (1 + (?N - n_fft self) div hop_size self)"
  let ?idx = "map (\<lambda>k. int k * hop_size self) [0 ..< ?F]"
  have rng: "py_range 0 (?N - n_fft self + 1) (hop_size self) = Inr ?idx"
    using py_range_forward [OF h, of "?N - n_fft self + 1"] N by simp
  have ok: "\<forall>start \<in> set ?idx. 0 \<le> start \<and> start + n_fft self \<le> ?N"
    using frame_index_bounds(1,2) [OF h N] by auto
  from frames_loop_full [OF w n ok, of "[]"]
  obtain frames where fr: "frames_loop self audio ?idx [] = Inr frames"
    "length frames = ?F" "\<forall>f \<in> set frames. length f = nat (n_fft self)"
    by auto
  have "0 \<le> (?N - n_fft self) div hop_size self"
    using h N by (simp add: pos_imp_zdiv_nonneg_iff)
  then have "0 < ?F" by simp
  with fr(2) have ne: "frames \<noteq> []" by auto
  have st: "torch_stack1 frames = Inr (map (\<lambda>k. map (\<lambda>t. t ! k) frames) [0 ..< nat (n_fft self)])"
    using torch_stack1_shape [OF ne fr(3)] .
  have half: "0 \<le> n_fft self div 2 + 1" "n_fft self div 2 + 1 \<le> n_fft self"
    using n by simp_all
  have sl: "py_slice (map (\<lambda>k. map (\<lambda>t. t ! k) frames) [0 ..< nat (n_fft self)]) 0 (n_fft self div 2 + 1)
      = take (nat (n_fft self div 2 + 1)) (map (\<lambda>k. map (\<lambda>t. t ! k) frames) [0 ..< nat (n_fft self)])"
    using py_slice_window [of 0 "n_fft self div 2 + 1"
        "map (\<lambda>k. map (\<lambda>t. t ! k) frames) [0 ..< nat (n_fft self)]"] half n
    by simp
  have "get_spectrogram self (Tensor1 audio)
      = Inr (take (nat (n_fft self div 2 + 1))
               (map (\<lambda>k. map (\<lambda>t. t ! k) frames) [0 ..< nat (n_fft self)]))"
    by (simp add: get_spectrogram_1d rng fr(1) st sl)
  with fr show ?thesis by blast
qed

text \<open>
  C1. For a converter built by \<open>__init__\<close> with \<open>n_fft > 0\<close> and \<open>hop_size > 0\<close>
  and a one-dimensional audio of N samples, \<open>N \<ge> n_fft\<close>: \<open>get_spectrogram\<close> returns
  a spectrogram with exactly \<open>n_fft // 2 + 1\<close> frequency bins (rows), each with exactly
  \<open>(N - n_fft) // hop_size + 1\<close> time frames. The samples behind the last complete
  window contribute nothing: the audio cut to the end of that window gives the same
  spectrogram.
\<close>

theorem get_spectrogram_shape:
  assumes init: "SpectrogramConverter_init n h rate m p fb = Inr self"
    and n: "0 < n" and h: "0 < h" and N: "n \<le> int (length audio)"
  shows "\<exists>S. get_spectrogram self (Tensor1 audio) = Inr S
           \<and> int (length S) = n div 2 + 1
           \<and> (\<forall>row \<in> set S. int (length row) = (int (length audio) - n) div h + 1)
           \<and> get_spectrogram self
                (Tensor1 (take (nat (((int (length audio) - n) div h) * h + n)) audio)) = Inr S"
proof -
  let ?N = "int (length audio)"
  let ?q = "(?N - n) div h"
  let ?M = "nat (?q * h + n)"
  define audio' where "audio' = take ?M audio"
  note f = init_fields [OF init]
  have w: "length (window_tensor self) = nat (n_fft self)" using f by simp
  have n': "0 < n_fft self" and h': "0 < hop_size self" and N': "n_fft self \<le> ?N"
    using f n h N by simp_all
  have q0: "0 \<le> ?q" using h N by (simp add: pos_imp_zdiv_nonneg_iff)
  have qh: "?q * h \<le> ?N - n"
    using frame_index_bounds(2) [OF h N, of "nat ?q"] q0 by simp
  have M: "?M \<le> length audio" using qh by linarith
  have pos: "0 \<le> ?q * h + n" using q0 h n by simp
  have "length audio' = ?M" using M by (simp add: audio'_def)
  then have lenM: "int (length audio') = ?q * h + n" using pos by simp
  have q': "(int (length audio') - n) div h = ?q"
    using h by (simp add: lenM)
  have N'': "n_fft self \<le> int (length audio')"
    using q0 h f by (simp add: lenM)
  from get_spectrogram_frames [OF w n' h' N']
  obtain frames where fr: "frames_loop self audio
             (map (\<lambda>k. int k * h) [0 ..< nat (1 + ?q)]) [] = Inr frames"
    "length frames = nat (1 + ?q)" "\<forall>f \<in> set frames. length f = nat n"
    "get_spectrogram self (Tensor1 audio)
       = Inr (take (nat (n div 2 + 1)) (map (\<lambda>k. map (\<lambda>t. t ! k) frames) [0 ..< nat n]))"
    using f by auto
  from get_spectrogram_frames [OF w n' h' N'']
  obtain frames' where fr': "frames_loop self audio'
             (map (\<lambda>k. int k * h) [0 ..< nat (1 + ?q)]) [] = Inr frames'"
    "get_spectrogram self (Tensor1 audio')
       = Inr (take (nat (n div 2 + 1)) (map (\<lambda>k. map (\<lambda>t. t ! k) frames') [0 ..< nat n]))"
    using f q' by auto
  have ok: "\<forall>start \<in> set (map (\<lambda>k. int k * h) [0 ..< nat (1 + ?q)]).
      0 \<le> start \<and> start + n_fft self \<le> int ?M"
    using frame_index_bounds(1,3) [OF h N] f q0 h n by auto
  have "frames_loop self audio' (map (\<lambda>k. int k * h) [0 ..< nat (1 + ?q)]) []
      = frames_loop self audio (map (\<lambda>k. int k * h) [0 ..< nat (1 + ?q)]) []"
    unfolding audio'_def using frames_loop_take [OF _ M ok] n' by simp
  with fr(1) fr'(1) have same: "frames' = frames" by simp
  let ?S = "take (nat (n div 2 + 1)) (map (\<lambda>k. map (\<lambda>t. t ! k) frames) [0 ..< nat n])"
  have "n div 2 + 1 \<le> n" "0 \<le> n div 2 + 1" using n by simp_all
  then have "min (nat n) (nat (n div 2 + 1)) = nat (n div 2 + 1)" by linarith
  then have bins: "int (length ?S) = n div 2 + 1" using n by simp
  have cols: "\<forall>row \<in> set ?S. int (length row) = ?q + 1"
  proof
    fix row assume "row \<in> set ?S"
    then have "row \<in> set (map (\<lambda>k. map (\<lambda>t. t ! k) frames) [0 ..< nat n])"
      by (rule in_set_takeD)
    then have "length row = length frames" by auto
    with fr(2) q0 show "int (length row) = ?q + 1" by simp
  qed
  from fr(4) fr'(2) same bins cols show ?thesis unfolding audio'_def by blast
qed

text \<open>Three samples for a window of four.\<close>

theorem get_spectrogram_short_audio_witness:
  "get_spectrogram \<lparr> n_fft = 4, hop_size = 2, sr = 16000, num_mels = 1,
       window_tensor = [0, 1/2, 1, 1/2], power' = 2, mel_fb = [] \<rparr> (Tensor1 [1, 2, 3])
     = Inl StackEmptyList"
  using get_spectrogram_short_audio [of "\<lparr> n_fft = 4, hop_size = 2, sr = 16000, num_mels = 1,
       window_tensor = [0, 1/2, 1, 1/2], power' = 2, mel_fb = [] \<rparr>" "[1, 2, 3]"]
  by simp

text \<open>
  Seven samples, windows of four, hop two: three bins, two frames, and the seventh
  sample is in no window.
\<close>

theorem get_spectrogram_shape_witness:
  "\<exists>self S. SpectrogramConverter_init 4 2 16000 1 2 [] = Inr self
     \<and> get_spectrogram self (Tensor1 [1, 2, 3, 4, 5, 6, 7]) = Inr S
     \<and> length S = 3 \<and> map length S = [2, 2, 2]
     \<and> get_spectrogram self (Tensor1 [1, 2, 3, 4, 5, 6]) = Inr S"
proof -
  obtain self where init: "SpectrogramConverter_init 4 2 16000 1 2 [] = Inr self"
    by (simp add: SpectrogramConverter_init_def torch_hann_window_def)
  have d: "(3::int) div 2 = 1" by simp
  from get_spectrogram_shape [OF init, of "[1, 2, 3, 4, 5, 6, 7]"]
  obtain S where S: "get_spectrogram self (Tensor1 [1, 2, 3, 4, 5, 6, 7]) = Inr S"
    "int (length S) = 3" "\<forall>row \<in> set S. int (length row) = 2"
    "get_spectrogram self (Tensor1 (take 6 [1, 2, 3, 4, 5, 6, 7])) = Inr S"
    by (auto simp: d)
  from S(2) have "length S = 3" by simp
  then obtain a b c where abc: "S = [a, b, c]"
    by (auto simp: numeral_3_eq_3 length_Suc_conv)
  with S(3) have "map length S = [2, 2, 2]" by simp
  with init S \<open>length S = 3\<close> show ?thesis by simp
qed

section \<open>The analysis window\<close>

text \<open>The frames the loop appends, one for each start index, each from a full window.\<close>

lemma frames_loop_explicit:
  assumes "length (window_tensor self) = nat (n_fft self)" "0 < n_fft self"
    and "\<forall>start \<in> set indices. 0 \<le> start \<and> start + n_fft self \<le> int (length audio)"
  shows "frames_loop self audio indices out
     = Inr (out @ map (\<lambda>start. map (\<lambda>z. tensor_pow (cmod z) (power' self))
                (dft (map2 (*) (take (nat (n_fft self)) (drop (nat start) audio))
                        (window_tensor self)))) indices)"
  using assms(3)
proof (induction indices arbitrary: out)
  case Nil
  show ?case by simp
next
  case (Cons start rest)
  then have s: "0 \<le> start" "start + n_fft self \<le> int (length audio)" by simp_all
  from Cons.prems
  have r: "\<forall>start \<in> set rest. 0 \<le> start \<and> start + n_fft self \<le> int (length audio)"
    by simp
  show ?case
    using spectrogram_frame_full [OF assms(1,2) s] Cons.IH [OF r] by simp
qed

lemma windowed_frame:
  assumes "length w = n" "s + n \<le> length audio"
  shows "map2 (*) (take n (drop s audio)) w = map (\<lambda>i. audio ! (s + i) * w ! i) [0 ..< n]"
  using assms by (intro nth_equalityI) simp_all

text \<open>The window of a single point is 1, not the value 0 of the formula.\<close>

lemma torch_hann_window_one: "torch_hann_window 1 = Inr [1]"
  by (simp add: torch_hann_window_def)

text \<open>
  C6, as the code has it. For a converter built with \<open>n_fft \<ge> 2\<close> and a positive hop
  size, the window is the periodic Hann window of \<open>n_fft\<close> points, whose value at index
  n is \<open>0.5 * (1 - cos(2 * pi * n / n_fft))\<close> for every n in \<open>[0, n_fft)\<close>, and
  \<open>get_spectrogram\<close> multiplies it into every frame: on an audio of at least
  \<open>n_fft\<close> samples, the value at bin b and frame j of the spectrogram is the
  magnitude, raised to the power, of the b-th Fourier coefficient of the samples
  \<open>audio[j * hop_size + i]\<close> times the window at i.
\<close>

theorem window_tensor_periodic_hann:
  assumes init: "SpectrogramConverter_init n h rate m p fb = Inr self"
    and n: "2 \<le> n" and h: "0 < h" and N: "n \<le> int (length audio)"
  shows "length (window_tensor self) = nat n
     \<and> (\<forall>k < nat n. window_tensor self ! k = 0.5 * (1 - cos (2 * pi * real k / real_of_int n)))
     \<and> (\<exists>S. get_spectrogram self (Tensor1 audio) = Inr S
          \<and> length S = nat (n div 2 + 1)
          \<and> (\<forall>b < length S. length (S ! b) = nat ((int (length audio) - n) div h + 1)
               \<and> (\<forall>j < length (S ! b).
                    S ! b ! j =
                      tensor_pow
                        (cmod (dft (map (\<lambda>i. audio ! (nat (int j * h) + i)
                                           * (0.5 * (1 - cos (2 * pi * real i / real_of_int n))))
                                     [0 ..< nat n]) ! b))
                        p)))"
proof -
  note f = init_fields [OF init]
  let ?N = "int (length audio)"
  let ?F = "nat (1 + (?N - n) div h)"
  let ?idx = "map (\<lambda>k. int k * h) [0 ..< ?F]"
  let ?hann = "\<lambda>i. 0.5 * (1 - cos (2 * pi * real i / real_of_int n)) :: real"
  let ?frame = "\<lambda>start. map (\<lambda>z. tensor_pow (cmod z) p)
      (dft (map2 (*) (take (nat n) (drop (nat start) audio)) (window_tensor self)))"
  have len: "length (window_tensor self) = nat n" by (rule f(5))
  have w: "window_tensor self
     = map (\<lambda>k. 0.5 - 0.5 * cos (2 * pi * real k / real_of_int n)) [0 ..< nat n]"
    using f(4) n by (simp add: torch_hann_window_def)
  have val: "window_tensor self ! k = ?hann k" if "k < nat n" for k
    using that by (simp add: w algebra_simps)
  have wl: "length (window_tensor self) = nat (n_fft self)" using f by simp
  have n': "0 < n_fft self" and h': "0 < hop_size self" and N': "n_fft self \<le> ?N"
    using f n h N by simp_all
  have ok: "\<forall>start \<in> set ?idx. 0 \<le> start \<and> start + n_fft self \<le> ?N"
    using frame_index_bounds(1,2) [OF h N] f by auto
  have loop: "frames_loop self audio ?idx [] = Inr (map ?frame ?idx)"
    using frames_loop_explicit [OF wl n' ok, of "[]"] f by simp
  from get_spectrogram_frames [OF wl n' h' N']
  obtain frames where fr: "frames_loop self audio ?idx [] = Inr frames"
    "get_spectrogram self (Tensor1 audio)
       = Inr (take (nat (n div 2 + 1)) (map (\<lambda>k. map (\<lambda>t. t ! k) frames) [0 ..< nat n]))"
    using f by auto
  from loop fr(1) have frames: "frames = map ?frame ?idx" by simp
  let ?S = "take (nat (n div 2 + 1)) (map (\<lambda>k. map (\<lambda>t. t ! k) frames) [0 ..< nat n])"
  have half: "nat (n div 2 + 1) \<le> nat n" using n by linarith
  have lenS: "length ?S = nat (n div 2 + 1)" using half by simp
  have q0: "0 \<le> (?N - n) div h" using h N by (simp add: pos_imp_zdiv_nonneg_iff)
  have cell: "length (?S ! b) = nat ((?N - n) div h + 1)
      \<and> (\<forall>j < length (?S ! b). ?S ! b ! j
            = tensor_pow (cmod (dft (map (\<lambda>i. audio ! (nat (int j * h) + i) * ?hann i)
                                       [0 ..< nat n]) ! b)) p)"
    if b: "b < length ?S" for b
  proof -
    have bn: "b < nat n" using b half lenS by linarith
    have row: "?S ! b = map (\<lambda>t. t ! b) frames" using b bn lenS by simp
    have lf: "length frames = ?F" by (simp add: frames)
    have lrow: "length (?S ! b) = ?F" unfolding row using lf by simp
    have F: "?F = nat ((?N - n) div h + 1)" by (simp add: add.commute)
    have v: "?S ! b ! j
        = tensor_pow (cmod (dft (map (\<lambda>i. audio ! (nat (int j * h) + i) * ?hann i)
                                   [0 ..< nat n]) ! b)) p"
      if j: "j < length (?S ! b)" for j
    proof -
      have jF: "j < ?F" using j lrow by simp
      have s0: "0 \<le> int j * h" and s1: "int j * h + n \<le> ?N"
        using frame_index_bounds(1,2) [OF h N jF] by simp_all
      have fit: "nat (int j * h) + nat n \<le> length audio" using s0 s1 n by linarith
      have wf: "map2 (*) (take (nat n) (drop (nat (int j * h)) audio)) (window_tensor self)
          = map (\<lambda>i. audio ! (nat (int j * h) + i) * window_tensor self ! i) [0 ..< nat n]"
        using windowed_frame [OF len fit] .
      also have "\<dots> = map (\<lambda>i. audio ! (nat (int j * h) + i) * ?hann i) [0 ..< nat n]"
        using val by simp
      finally have wf': "map2 (*) (take (nat n) (drop (nat (int j * h)) audio)) (window_tensor self)
          = map (\<lambda>i. audio ! (nat (int j * h) + i) * ?hann i) [0 ..< nat n]" .
      have ld: "length (dft (map (\<lambda>i. audio ! (nat (int j * h) + i) * ?hann i) [0 ..< nat n])) = nat n"
        by (simp add: dft_def)
      have nf: "frames ! j = ?frame (int j * h)" using jF by (simp add: frames)
      have "?S ! b ! j = frames ! j ! b" unfolding row using jF lf by simp
      also have "\<dots> = ?frame (int j * h) ! b" by (simp only: nf)
      also have "\<dots> = tensor_pow (cmod (dft (map (\<lambda>i. audio ! (nat (int j * h) + i) * ?hann i)
                                   [0 ..< nat n]) ! b)) p"
        unfolding wf' using bn ld by simp
      finally show ?thesis .
    qed
    from lrow F v show ?thesis by simp
  qed
  from len val fr(2) lenS cell show ?thesis by blast
qed

text \<open>
  Four points, hop two, seven samples: the window is 1 at index 2, and the value at
  bin 1 and frame 1 comes from the samples 3 to 6 under the window.
\<close>

theorem window_tensor_periodic_hann_witness:
  "\<exists>self S. SpectrogramConverter_init 4 2 16000 1 2 [] = Inr self
     \<and> length (window_tensor self) = 4
     \<and> window_tensor self ! 2 = 1
     \<and> get_spectrogram self (Tensor1 [1, 2, 3, 4, 5, 6, 7]) = Inr S
     \<and> length S = 3
     \<and> S ! 1 ! 1 = tensor_pow
          (cmod (dft (map (\<lambda>i. [1, 2, 3, 4, 5, 6, 7] ! (2 + i)
                           * (0.5 * (1 - cos (2 * pi * real i / 4)))) [0 ..< 4]) ! 1)) 2"
proof -
  obtain self where init: "SpectrogramConverter_init 4 2 16000 1 2 [] = Inr self"
    by (simp add: SpectrogramConverter_init_def torch_hann_window_def)
  have n: "(2::int) \<le> 4" and h: "(0::int) < 2"
    and N: "(4::int) \<le> int (length [1, 2, 3, 4, 5, 6, 7 :: real])" by simp_all
  note t = window_tensor_periodic_hann [OF init n h N]
  from t have "length (window_tensor self) = nat 4" by blast
  then have a: "length (window_tensor self) = 4" by simp
  have v: "window_tensor self ! k = 0.5 * (1 - cos (2 * pi * real k / real_of_int 4))"
    if "k < nat 4" for k
    using t that by blast
  have b: "window_tensor self ! 2 = 1" using v [of 2] by simp
  from t obtain S where S: "get_spectrogram self (Tensor1 [1, 2, 3, 4, 5, 6, 7]) = Inr S"
    "length S = nat (4 div 2 + 1)"
    "\<forall>b < length S. length (S ! b) = nat ((int (length [1, 2, 3, 4, 5, 6, 7 :: real]) - 4) div 2 + 1)
       \<and> (\<forall>j < length (S ! b). S ! b ! j =
            tensor_pow (cmod (dft (map (\<lambda>i. [1, 2, 3, 4, 5, 6, 7] ! (nat (int j * 2) + i)
                * (0.5 * (1 - cos (2 * pi * real i / real_of_int 4)))) [0 ..< nat 4]) ! b)) 2)"
    by blast
  have d: "(3::int) div 2 = 1" "(4::int) div 2 = 2" by simp_all
  from S(2) have l3: "length S = 3" by simp
  then have b1: "1 < length S" by simp
  from S(3) b1 have l2: "length (S ! 1) = 2" by (simp add: d)
  then have j1: "1 < length (S ! 1)" by simp
  from S(3) b1 j1 have "S ! 1 ! 1 =
      tensor_pow (cmod (dft (map (\<lambda>i. [1, 2, 3, 4, 5, 6, 7] ! (nat (int 1 * 2) + i)
          * (0.5 * (1 - cos (2 * pi * real i / real_of_int 4)))) [0 ..< nat 4]) ! 1)) 2"
    by blast
  then have c: "S ! 1 ! 1 = tensor_pow
          (cmod (dft (map (\<lambda>i. [1, 2, 3, 4, 5, 6, 7] ! (2 + i)
                           * (0.5 * (1 - cos (2 * pi * real i / 4)))) [0 ..< 4]) ! 1)) 2"
    by simp
  from init a b S(1) l3 c show ?thesis by blast
qed

text \<open>
  The divisor is not \<open>n_fft - 1\<close>: the window of two points is \<open>[0, 1]\<close>, and at
  index 1 the formula with \<open>n_fft - 1\<close> gives \<open>0.5 * (1 - cos(2 * pi)) = 0\<close>.
\<close>

theorem window_tensor_symmetric_counterexample:
  "map_sum id window_tensor (SpectrogramConverter_init 2 1 16000 1 2 []) = Inr [0, 1]
   \<and> 0.5 * (1 - cos (2 * pi * 1 / (2 - 1))) = (0::real)"
  by (simp add: SpectrogramConverter_init_def torch_hann_window_def upt_rec)

end
